theory Spec2Isabelle
  imports Main "HOL-Library.Word"
begin

section \<open>Plain data of the node\<close>

text \<open>
  The embedding follows \<^verbatim>\<open>src/Rpc/RpcServer.cpp\<close>. Fixed-width integers are words.
  \<^verbatim>\<open>Crypto::Hash\<close>, \<^verbatim>\<open>PublicKey\<close>, \<^verbatim>\<open>SecretKey\<close> and \<^verbatim>\<open>KeyDerivation\<close> are 32-byte
  plain-old-data structs; they are 256-bit words here, so that every value has exactly 32 bytes.
\<close>

type_synonym byte = "8 word"
type_synonym u32 = "32 word"
type_synonym u64 = "64 word"
type_synonym BinaryArray = "byte list"
type_synonym Hash = "256 word"
type_synonym PublicKey = "256 word"
type_synonym SecretKey = "256 word"
type_synonym KeyDerivation = "256 word"

record AccountPublicAddress =
  spendPublicKey :: PublicKey
  viewPublicKey :: PublicKey

text \<open>
  Error codes are kept symbolic: their numeric values are declared in
  \<^verbatim>\<open>CoreRpcServerErrorCodes.h\<close> and \<^verbatim>\<open>JsonRpc.h\<close>, outside this file.
\<close>

datatype error_code =
    errMethodNotFound
  | errInternalError
  | CORE_RPC_ERROR_CODE_WRONG_PARAM
  | CORE_RPC_ERROR_CODE_TOO_BIG_HEIGHT
  | CORE_RPC_ERROR_CODE_TOO_BIG_RESERVE_SIZE
  | CORE_RPC_ERROR_CODE_WRONG_WALLET_ADDRESS
  | CORE_RPC_ERROR_CODE_INTERNAL_ERROR
  | CORE_RPC_ERROR_CODE_WRONG_BLOCKBLOB
  | CORE_RPC_ERROR_CODE_BLOCK_NOT_ACCEPTED
  | CORE_RPC_ERROR_CODE_CORE_BUSY

text \<open>
  \<^verbatim>\<open>JsonRpcError\<close> is constructed either from a code alone or from a code and a message.
  A \<^verbatim>\<open>throw\<close> is a value: either a \<^verbatim>\<open>JsonRpcError\<close> or another \<^verbatim>\<open>std::exception\<close> with
  its \<^verbatim>\<open>what()\<close> text.
\<close>

datatype JsonRpcError =
    JsonRpcError error_code
  | JsonRpcErrorMsg error_code string

datatype exn =
    ThrowJsonRpcError JsonRpcError
  | ThrowStdException string

text \<open>
  The memory image of such a struct is its 32 bytes, lowest byte first; \<open>pod_of_bytes\<close> is the
  read of a struct through a pointer to bytes (\<^verbatim>\<open>reinterpret_cast\<close>), which takes the first
  32 bytes it finds.
\<close>

definition pod_bytes :: "256 word \<Rightarrow> BinaryArray" where
  "pod_bytes w = map (\<lambda>i. ucast (drop_bit (8 * i) w)) [0..<32]"

definition pod_of_bytes :: "BinaryArray \<Rightarrow> 256 word" where
  "pod_of_bytes bs = horner_sum ucast 256 (take 32 bs)"


text \<open>\<^verbatim>\<open>Common::asString\<close>: the same bytes as a \<^verbatim>\<open>std::string\<close>.\<close>

definition asString :: "BinaryArray \<Rightarrow> string" where
  "asString bs = map (\<lambda>b. char_of (unat b)) bs"

subsection \<open>Transactions and blocks\<close>

text \<open>
  The structs of \<^verbatim>\<open>CryptoNote.h\<close> are not part of this file; they are given with the fields
  that \<^verbatim>\<open>RpcServer.cpp\<close> reads. Inputs and output targets are variants: the handlers name
  \<^verbatim>\<open>BaseInput\<close> (with \<^verbatim>\<open>blockIndex\<close>), \<^verbatim>\<open>KeyInput\<close> (with \<^verbatim>\<open>outputIndexes\<close>) and \<^verbatim>\<open>KeyOutput\<close>
  (with \<^verbatim>\<open>key\<close>), and skip every other kind.
\<close>

datatype TransactionInput =
    BaseInput u32
  | KeyInput u64 "u32 list"
  | MultisignatureInput u64

datatype TransactionOutputTarget =
    KeyOutput PublicKey
  | MultisignatureOutput "PublicKey list"

record TransactionOutput =
  amount :: u64
  target :: TransactionOutputTarget

record Transaction =
  inputs :: "TransactionInput list"
  outputs :: "TransactionOutput list"
  extra :: BinaryArray

record Block =
  majorVersion :: byte
  minorVersion :: byte
  nonce :: u32
  timestamp :: u64
  previousBlockHash :: Hash
  baseTransaction :: Transaction
  transactionHashes :: "Hash list"

text \<open>\<^verbatim>\<open>IBlock\<close>, as \<^verbatim>\<open>core::getBlock\<close> returns it: the block and its transactions.\<close>

record IBlock =
  iblock_getBlock :: Block
  iblock_transactions :: "Transaction list"

record block_verification_context =
  m_added_to_main_chain :: bool
  m_verification_failed :: bool

text \<open>
  Calls into the collaborators (core, miner, peer-to-peer node) that a handler of the flat
  HTTP surface makes are recorded, in order, in a log that the handler returns beside its
  result.
\<close>

datatype call =
    ParseAccountAddressString string
  | MinerStart AccountPublicAddress u64
  | MinerStop
  | SendStopSignal
  | GetBlockIdByHeight u32
  | FindBlockchainSupplement "Hash list" nat
  | HaveBlock Hash
  | GetBlock Hash
  | GetTransactions "Hash list"
  | Invoke string

section \<open>Collaborators\<close>

text \<open>
  The core, the miner, the peer-to-peer node and the protocol query are reached through
  references held by the server. Each is a record of the answers its methods give; none of
  them is defined in \<^verbatim>\<open>RpcServer.cpp\<close>, so every answer is a parameter. A method that
  reports through a boolean and an out-parameter answers with an option, or with the pair of
  the boolean and the value left in the out-parameter where the source ignores the boolean.
\<close>

record Currency =
  isTestnet :: bool
  parseAccountAddressString :: "string \<Rightarrow> AccountPublicAddress option"

record Miner =
  start :: "AccountPublicAddress \<Rightarrow> u64 \<Rightarrow> bool"
  stop :: bool

record NodeServer =
  isSynchronized :: bool

record ICryptoNoteProtocolQuery =
  getObservedHeight :: u32

record core =
  currency :: Currency
  get_miner :: Miner
  get_current_blockchain_height :: u32
  getBlockIdByHeight :: "u32 \<Rightarrow> Hash"
  findBlockchainSupplement :: "Hash list \<Rightarrow> nat \<Rightarrow> Hash list \<times> u32 \<times> u32"
  have_block :: "Hash \<Rightarrow> bool"
  getBlock :: "Hash \<Rightarrow> IBlock option"
  getBlockByHash :: "Hash \<Rightarrow> Block option"
  getBlockSize :: "Hash \<Rightarrow> bool \<times> u64"
  getBlockDifficulty :: "u32 \<Rightarrow> bool \<times> u64"
  getMinimalFeeForHeight :: "u32 \<Rightarrow> u64"
  getTransactions :: "Hash list \<Rightarrow> bool \<Rightarrow> Transaction list \<times> Hash list"
  getPoolTransactions :: "Transaction list"
  getBlockContainingTx :: "Hash \<Rightarrow> (Hash \<times> u32) option"
  get_block_template :: "AccountPublicAddress \<Rightarrow> BinaryArray \<Rightarrow> (Block \<times> u64 \<times> u32) option"
  handle_incoming_block_blob :: "BinaryArray \<Rightarrow> bool \<Rightarrow> bool \<Rightarrow> block_verification_context"

record RpcServer =
  m_core :: core
  m_p2p :: NodeServer
  m_protocolQuery :: ICryptoNoteProtocolQuery
  m_restricted_rpc :: bool
  m_cors_domain :: string

text \<open>
  Constants and functions of the repository that \<^verbatim>\<open>RpcServer.cpp\<close> uses and other files
  define: they are parameters too. \<^verbatim>\<open>derive_public_key\<close> writes the derived key through a
  reference and returns whether it has done so; it may also raise.
\<close>

datatype derive_result = Raised | NotDerived | Derived PublicKey

record externals =
  error_code_value :: "error_code \<Rightarrow> int"
  NULL_PUBLIC_KEY :: PublicKey
  TX_EXTRA_NONCE_MAX_COUNT :: nat
  MINIMUM_FEE :: u64
  COMMAND_RPC_GET_BLOCKS_FAST_MAX_COUNT :: nat
  fromHex :: "string \<Rightarrow> BinaryArray option"
  toHex :: "BinaryArray \<Rightarrow> string"
  podToHex :: "Hash \<Rightarrow> string"
  parse_hash256 :: "string \<Rightarrow> Hash option"
  toBinaryArray_Block :: "Block \<Rightarrow> BinaryArray"
  toBinaryArray_Transaction :: "Transaction \<Rightarrow> BinaryArray"
  getObjectBinarySize_Block :: "Block \<Rightarrow> u64"
  getObjectBinarySize_Transaction :: "Transaction \<Rightarrow> u64"
  getObjectHash :: "Transaction \<Rightarrow> Hash"
  getTransactionPublicKeyFromExtra :: "BinaryArray \<Rightarrow> PublicKey"
  getPaymentIdFromTxExtra :: "BinaryArray \<Rightarrow> Hash option"
  get_block_hashing_blob :: "Block \<Rightarrow> BinaryArray option"
  generate_key_derivation :: "PublicKey \<Rightarrow> SecretKey \<Rightarrow> KeyDerivation option"
  derive_public_key :: "KeyDerivation \<Rightarrow> nat \<Rightarrow> PublicKey \<Rightarrow> derive_result"

text \<open>Modelled from the spec: the macro \<^verbatim>\<open>CORE_RPC_STATUS_OK\<close> of
  \<^verbatim>\<open>CoreRpcServerCommandsDefinitions.h\<close>, which is not part of this file; the spec's examples
  give the status of a successful call as \<^verbatim>\<open>"OK"\<close>.\<close>

definition CORE_RPC_STATUS_OK :: string where
  "CORE_RPC_STATUS_OK = ''OK''"

section \<open>HTTP dispatch\<close>

datatype Status = STATUS_200 | STATUS_404 | STATUS_500

record HttpRequest =
  url :: string
  request_body :: string

record HttpResponse =
  http_status :: Status
  headers :: "(string \<times> string) list"
  body :: string

type_synonym HandlerFunction =
  "RpcServer \<Rightarrow> HttpRequest \<Rightarrow> HttpResponse \<Rightarrow> (exn + bool \<times> HttpResponse) \<times> call list"

record 'h RpcHandler =
  handler :: 'h
  allowBusyCore :: bool

text \<open>\<^verbatim>\<open>jsonMethod\<close> (lines 70-85). The codec (\<^verbatim>\<open>loadFromJson\<close>, \<^verbatim>\<open>storeToJson\<close>) and the
  value-initialised response \<open>res0\<close> are parameters.\<close>

definition jsonMethod ::
  "(string \<Rightarrow> 'req option) \<Rightarrow> ('res \<Rightarrow> string) \<Rightarrow> 'res \<Rightarrow>
   (RpcServer \<Rightarrow> 'req \<Rightarrow> 'res \<Rightarrow> bool \<times> 'res \<times> call list) \<Rightarrow> HandlerFunction" where
  "jsonMethod loadFromJson storeToJson res0 h = (\<lambda>obj request response.
     case loadFromJson (request_body request) of
       None \<Rightarrow> (Inr (False, response), [])
     | Some req \<Rightarrow>
         (case h obj req res0 of
            (result, res, calls) \<Rightarrow> (Inr (result, response\<lparr>body := storeToJson res\<rparr>), calls)))"

definition isCoreReady :: "RpcServer \<Rightarrow> bool" where
  "isCoreReady this \<longleftrightarrow> isTestnet (currency (m_core this)) \<or> isSynchronized (m_p2p this)"

text \<open>\<^verbatim>\<open>processRequest\<close> (lines 122-140). The static table \<^verbatim>\<open>s_handlers\<close> is a map from the
  URL to its entry. Invoking the bound handler is logged as \<open>Invoke\<close>, followed by the calls
  the handler makes; an exception of the handler is not caught here.\<close>

definition processRequest ::
  "(string \<rightharpoonup> HandlerFunction RpcHandler) \<Rightarrow> RpcServer \<Rightarrow> HttpRequest \<Rightarrow> HttpResponse \<Rightarrow>
   (exn + HttpResponse) \<times> call list" where
  "processRequest s_handlers this request response =
     (case s_handlers (url request) of
        None \<Rightarrow> (Inr (response\<lparr>http_status := STATUS_404\<rparr>), [])
      | Some it \<Rightarrow>
          if \<not> allowBusyCore it \<and> \<not> isCoreReady this
          then (Inr (response\<lparr>http_status := STATUS_500, body := ''Core is busy''\<rparr>), [])
          else (case handler it this request response of
                  (Inl e, calls) \<Rightarrow> (Inl e, Invoke (url request) # calls)
                | (Inr (result, response'), calls) \<Rightarrow> (Inr response', Invoke (url request) # calls)))"

section \<open>Operator handlers\<close>

record status_response =
  status :: string

record START_MINING_request =
  miner_address :: string
  threads_count :: u64

text \<open>\<^verbatim>\<open>on_start_mining\<close> (lines 519-538).\<close>

definition on_start_mining ::
  "RpcServer \<Rightarrow> START_MINING_request \<Rightarrow> status_response \<Rightarrow> bool \<times> status_response \<times> call list" where
  "on_start_mining this req res =
     (if m_restricted_rpc this then (False, res\<lparr>status := ''Failed, restricted handle''\<rparr>, [])
      else
        (case parseAccountAddressString (currency (m_core this)) (miner_address req) of
           None \<Rightarrow>
             (True, res\<lparr>status := ''Failed, wrong address''\<rparr>,
              [ParseAccountAddressString (miner_address req)])
         | Some adr \<Rightarrow>
             if \<not> start (get_miner (m_core this)) adr (threads_count req)
             then (True, res\<lparr>status := ''Failed, mining not started''\<rparr>,
                   [ParseAccountAddressString (miner_address req), MinerStart adr (threads_count req)])
             else (True, res\<lparr>status := CORE_RPC_STATUS_OK\<rparr>,
                   [ParseAccountAddressString (miner_address req), MinerStart adr (threads_count req)])))"

text \<open>\<^verbatim>\<open>on_stop_mining\<close> (lines 540-552).\<close>

definition on_stop_mining ::
  "RpcServer \<Rightarrow> unit \<Rightarrow> status_response \<Rightarrow> bool \<times> status_response \<times> call list" where
  "on_stop_mining this req res =
     (if m_restricted_rpc this then (False, res\<lparr>status := ''Failed, restricted handle''\<rparr>, [])
      else if \<not> stop (get_miner (m_core this))
      then (True, res\<lparr>status := ''Failed, mining not stopped''\<rparr>, [MinerStop])
      else (True, res\<lparr>status := CORE_RPC_STATUS_OK\<rparr>, [MinerStop]))"

text \<open>\<^verbatim>\<open>on_stop_daemon\<close> (lines 554-567). Off the test network the source assigns the integer
  macro \<^verbatim>\<open>CORE_RPC_ERROR_CODE_INTERNAL_ERROR\<close> to the status string, which stores the single
  character with that code.\<close>

definition on_stop_daemon ::
  "externals \<Rightarrow> RpcServer \<Rightarrow> unit \<Rightarrow> status_response \<Rightarrow> bool \<times> status_response \<times> call list" where
  "on_stop_daemon X this req res =
     (if m_restricted_rpc this then (False, res\<lparr>status := ''Failed, restricted handle''\<rparr>, [])
      else if isTestnet (currency (m_core this))
      then (True, res\<lparr>status := CORE_RPC_STATUS_OK\<rparr>, [SendStopSignal])
      else (False, res\<lparr>status := [char_of (error_code_value X CORE_RPC_ERROR_CODE_INTERNAL_ERROR)]\<rparr>, []))"

section \<open>Chain synchronisation: \<^verbatim>\<open>get_blocks\<close>\<close>

record block_complete_entry =
  block :: string
  txs :: "string list"

record GET_BLOCKS_FAST_request =
  block_ids :: "Hash list"

record GET_BLOCKS_FAST_response = status_response +
  blocks :: "block_complete_entry list"
  start_height :: u64
  current_height :: u64

text \<open>
  The loop over the supplement (lines 284-296). The two \<^verbatim>\<open>assert\<close>s stop the process when
  they fail: that is the result \<open>None\<close>.
\<close>

fun get_blocks_loop ::
  "externals \<Rightarrow> core \<Rightarrow> Hash list \<Rightarrow> GET_BLOCKS_FAST_response \<Rightarrow> call list \<Rightarrow>
   GET_BLOCKS_FAST_response option \<times> call list" where
  "get_blocks_loop X c [] res calls = (Some res, calls)"
| "get_blocks_loop X c (blockId # supplement) res calls =
     (if \<not> have_block c blockId then (None, calls @ [HaveBlock blockId])
      else
        (case getBlock c blockId of
           None \<Rightarrow> (None, calls @ [HaveBlock blockId, GetBlock blockId])
         | Some completeBlock \<Rightarrow>
             get_blocks_loop X c supplement
               (res\<lparr>blocks := blocks res @
                  [\<lparr>block = asString (toBinaryArray_Block X (iblock_getBlock completeBlock)),
                    txs = map (\<lambda>tx. asString (toBinaryArray_Transaction X tx))
                            (iblock_transactions completeBlock)\<rparr>]\<rparr>)
               (calls @ [HaveBlock blockId, GetBlock blockId])))"

text \<open>\<^verbatim>\<open>on_get_blocks\<close> (lines 265-300).\<close>

definition on_get_blocks ::
  "externals \<Rightarrow> RpcServer \<Rightarrow> GET_BLOCKS_FAST_request \<Rightarrow> GET_BLOCKS_FAST_response \<Rightarrow>
   (bool \<times> GET_BLOCKS_FAST_response) option \<times> call list" where
  "on_get_blocks X this req res =
     (if block_ids req = [] then (Some (False, res\<lparr>status := ''Failed''\<rparr>), [])
      else if last (block_ids req) \<noteq> getBlockIdByHeight (m_core this) 0
      then (Some (False, res\<lparr>status := ''Failed''\<rparr>), [GetBlockIdByHeight 0])
      else
        (case findBlockchainSupplement (m_core this) (block_ids req)
                (COMMAND_RPC_GET_BLOCKS_FAST_MAX_COUNT X) of
           (supplement, totalBlockCount, startBlockIndex) \<Rightarrow>
             (case get_blocks_loop X (m_core this) supplement
                     (res\<lparr>current_height := ucast totalBlockCount,
                          start_height := ucast startBlockIndex\<rparr>)
                     [GetBlockIdByHeight 0,
                      FindBlockchainSupplement (block_ids req)
                        (COMMAND_RPC_GET_BLOCKS_FAST_MAX_COUNT X)] of
                (None, calls) \<Rightarrow> (None, calls)
              | (Some res', calls) \<Rightarrow> (Some (True, res'\<lparr>status := CORE_RPC_STATUS_OK\<rparr>), calls))))"

section \<open>\<^verbatim>\<open>gettransactions\<close>\<close>



definition sizeof_Hash :: nat where
  "sizeof_Hash = 32"



section \<open>JSON-RPC methods\<close>

text \<open>
  A JSON-RPC method either returns its boolean and the response it filled, or throws.
\<close>

type_synonym 'res outcome = "exn + bool \<times> 'res"

definition throw :: "error_code \<Rightarrow> string \<Rightarrow> 'res outcome" where
  "throw code message = Inl (ThrowJsonRpcError (JsonRpcErrorMsg code message))"

subsection \<open>\<^verbatim>\<open>submitblock\<close>\<close>

text \<open>\<^verbatim>\<open>on_submitblock\<close> (lines 1053-1073). The request is the vector of parameter strings.\<close>

definition on_submitblock ::
  "externals \<Rightarrow> RpcServer \<Rightarrow> string list \<Rightarrow> status_response \<Rightarrow> status_response outcome" where
  "on_submitblock X this req res =
     (if length req \<noteq> 1 then throw CORE_RPC_ERROR_CODE_WRONG_PARAM ''Wrong param''
      else
        (case fromHex X (req ! 0) of
           None \<Rightarrow> throw CORE_RPC_ERROR_CODE_WRONG_BLOCKBLOB ''Wrong block blob''
         | Some blockblob \<Rightarrow>
             (let bvc = handle_incoming_block_blob (m_core this) blockblob True True in
              if \<not> m_added_to_main_chain bvc
              then throw CORE_RPC_ERROR_CODE_BLOCK_NOT_ACCEPTED ''Block not accepted''
              else Inr (True, res\<lparr>status := CORE_RPC_STATUS_OK\<rparr>))))"

subsection \<open>\<^verbatim>\<open>f_blocks_list_json\<close>\<close>


record f_block_short_response =
  bs_timestamp :: u64
  bs_height :: u32
  bs_hash :: string
  cumul_size :: u64
  tx_count :: u64
  bs_difficulty :: u64
  min_tx_fee :: u64





subsection \<open>\<^verbatim>\<open>getblocktemplate\<close>\<close>

text \<open>
  The searched buffer is the list \<open>mem\<close> of its bytes and a pointer into it is an offset. The
  C library function \<^verbatim>\<open>memchr(buf, c, n)\<close> gives the first position among the \<open>n\<close> bytes from
  \<open>buf\<close> on that holds \<open>c\<close>, or the null pointer. When no byte of the buffer from \<open>buf\<close> on
  holds \<open>c\<close> and the \<open>n\<close> bytes reach past the end of the buffer, the call reads bytes that
  are not part of the buffer: its result is not defined.
\<close>

datatype memchr_result = ReadPastEnd | NullPointer | Pointer nat

definition memchr :: "BinaryArray \<Rightarrow> nat \<Rightarrow> byte \<Rightarrow> nat \<Rightarrow> memchr_result" where
  "memchr mem buf c n =
     (case find (\<lambda>i. mem ! i = c) [buf ..< min (buf + n) (length mem)] of
        Some q \<Rightarrow> Pointer q
      | None \<Rightarrow> if length mem < buf + n then ReadPastEnd else NullPointer)"

lemma memchr_Pointer:
  assumes "memchr mem buf c n = Pointer q"
  shows "buf \<le> q" and "q < buf + n" and "q < length mem" and "mem ! q = c"
    and "\<And>i. buf \<le> i \<Longrightarrow> i < q \<Longrightarrow> mem ! i \<noteq> c"
proof -
  let ?xs = "[buf ..< min (buf + n) (length mem)]"
  from assms have "find (\<lambda>i. mem ! i = c) ?xs = Some q"
    by (simp add: memchr_def split: option.splits if_splits)
  then obtain k where k: "k < length ?xs" "mem ! (?xs ! k) = c" "q = ?xs ! k"
    and first: "\<forall>j<k. mem ! (?xs ! j) \<noteq> c"
    unfolding find_Some_iff by blast
  from k(1) have kb: "buf + k < min (buf + n) (length mem)"
    by (simp add: min_def split: if_splits)
  then have q: "q = buf + k"
    using k(3) by (simp only: nth_upt)
  show "buf \<le> q" using q by simp
  show "q < buf + n" using q kb by simp
  show "q < length mem" using q kb by simp
  show "mem ! q = c" using k by simp
  fix i assume i: "buf \<le> i" "i < q"
  then have "i - buf < k" using q by simp
  with first have "mem ! (?xs ! (i - buf)) \<noteq> c" by blast
  moreover have "?xs ! (i - buf) = i"
    using i q kb by (simp add: nth_upt)
  ultimately show "mem ! i \<noteq> c" by simp
qed

lemma memchr_no_Pointer:
  assumes "memchr mem buf c n = ReadPastEnd \<or> memchr mem buf c n = NullPointer"
    and "buf \<le> i" and "i < buf + n" and "i < length mem"
  shows "mem ! i \<noteq> c"
proof -
  from assms(1) have "find (\<lambda>i. mem ! i = c) [buf ..< min (buf + n) (length mem)] = None"
    by (auto simp: memchr_def split: option.splits if_splits)
  then have "\<forall>x \<in> set [buf ..< min (buf + n) (length mem)]. mem ! x \<noteq> c"
    unfolding find_None_iff by blast
  then show ?thesis using assms(2-4) by simp
qed

text \<open>
  \<^verbatim>\<open>slow_memmem\<close> (lines 977-990). The result \<open>None\<close> stands for a run that reads outside the
  buffer or outside the pattern, which has no defined result: every \<^verbatim>\<open>memchr\<close> call gets the
  whole \<^verbatim>\<open>buflen\<close> as its limit although \<open>buf\<close> has advanced, and \<^verbatim>\<open>memcmp\<close> reads \<^verbatim>\<open>patlen\<close>
  bytes of both. \<^verbatim>\<open>end\<close> is \<open>buflen - patlen\<close>, taken in the integers since the pattern may be
  longer than the buffer.
\<close>

function slow_memmem_loop :: "BinaryArray \<Rightarrow> nat \<Rightarrow> BinaryArray \<Rightarrow> nat \<Rightarrow> nat \<Rightarrow> nat option" where
  "slow_memmem_loop mem buflen pat patlen buf =
     (if pat = [] then None
      else
        (case memchr mem buf (pat ! 0) buflen of
           ReadPastEnd \<Rightarrow> None
         | NullPointer \<Rightarrow> Some 0
         | Pointer q \<Rightarrow>
             if int q > int buflen - int patlen then Some 0
             else if length mem < q + patlen \<or> length pat < patlen then None
             else if take patlen (drop q mem) = take patlen pat then Some q
             else slow_memmem_loop mem buflen pat patlen (q + 1)))"
  by pat_completeness auto
termination
proof (relation "measure (\<lambda>(mem, buflen, pat, patlen, buf). buflen + 1 - buf)", goal_cases)
  case 1
  show ?case by simp
next
  case (2 mem buflen pat patlen buf q)
  from 2(2) have "buf \<le> q" by (rule memchr_Pointer)
  moreover from 2(3) have "q \<le> buflen" by simp
  ultimately show ?case by simp
qed

declare slow_memmem_loop.simps [simp del]

definition slow_memmem :: "BinaryArray \<Rightarrow> nat \<Rightarrow> BinaryArray \<Rightarrow> nat \<Rightarrow> nat option" where
  "slow_memmem mem buflen pat patlen = slow_memmem_loop mem buflen pat patlen 0"

definition sizeof_PublicKey :: nat where
  "sizeof_PublicKey = 32"



text \<open>
  The computation of \<^verbatim>\<open>reserved_offset\<close> (lines 1019-1032). Sizes and offsets of buffers are
  natural numbers: a buffer in memory is far shorter than \<open>2^64\<close> bytes, so the 64-bit sums
  of the source do not wrap. \<open>None\<close> is a search without a defined result.
\<close>

definition JsonRpcError_template :: exn where
  "JsonRpcError_template = ThrowJsonRpcError (JsonRpcErrorMsg CORE_RPC_ERROR_CODE_INTERNAL_ERROR
     ''Internal error: failed to create block template'')"

definition getblocktemplate_reserved_offset ::
  "nat \<Rightarrow> BinaryArray \<Rightarrow> PublicKey \<Rightarrow> (exn + nat) option" where
  "getblocktemplate_reserved_offset reserve block_blob tx_pub_key =
     (if 0 < reserve then
        (case slow_memmem block_blob (length block_blob) (pod_bytes tx_pub_key) sizeof_PublicKey of
           None \<Rightarrow> None
         | Some off \<Rightarrow>
             if off = 0 then Some (Inl JsonRpcError_template)
             else if off + sizeof_PublicKey + 3 + reserve > length block_blob
             then Some (Inl JsonRpcError_template)
             else Some (Inr (off + sizeof_PublicKey + 3)))
      else Some (Inr 0))"


section \<open>A small node for examples\<close>

text \<open>
  Concrete collaborators on which the handlers can be run: a chain of three blocks with the
  ids 100, 101 and 102, one transaction with the id 500 in the block 101, and a toy
  serialisation of a block (two version bytes, the previous id, the coinbase extra, that is
  the tag 1 and the transaction public key, the tag 2, a counter and the reserved bytes, then
  the number of transaction ids and the ids).
\<close>

definition demo_address :: AccountPublicAddress where
  "demo_address = \<lparr>spendPublicKey = 7, viewPublicKey = 9\<rparr>"

definition demo_currency :: Currency where
  "demo_currency =
     \<lparr>isTestnet = False,
      parseAccountAddressString = (\<lambda>s. if s = ''Kdemo'' then Some demo_address else None)\<rparr>"

definition demo_tx :: Transaction where
  "demo_tx =
     \<lparr>inputs = [KeyInput 50 [1, 2, 3]],
      outputs = [\<lparr>amount = 30, target = KeyOutput 11\<rparr>, \<lparr>amount = 15, target = KeyOutput 12\<rparr>],
      extra = 1 # pod_bytes 77\<rparr>"

definition demo_extra :: "nat \<Rightarrow> BinaryArray" where
  "demo_extra n = 1 # pod_bytes 258 @ [2, of_nat n] @ replicate n 0"

definition demo_block :: "nat \<Rightarrow> Block" where
  "demo_block n =
     \<lparr>majorVersion = 4, minorVersion = 0, nonce = 0, timestamp = 1000, previousBlockHash = 102,
      baseTransaction =
        \<lparr>inputs = [BaseInput 3], outputs = [\<lparr>amount = 70, target = KeyOutput 13\<rparr>],
         extra = demo_extra n\<rparr>,
      transactionHashes = [500]\<rparr>"

definition hex_digit :: "nat \<Rightarrow> char" where
  "hex_digit n = ''0123456789abcdef'' ! n"

definition demo_toHex :: "BinaryArray \<Rightarrow> string" where
  "demo_toHex bs = concat (map (\<lambda>b. [hex_digit (unat b div 16), hex_digit (unat b mod 16)]) bs)"

definition hex_value :: "char \<Rightarrow> nat option" where
  "hex_value c =
     (let n = (of_char c :: nat) in
      if 48 \<le> n \<and> n \<le> 57 then Some (n - 48)
      else if 97 \<le> n \<and> n \<le> 102 then Some (n - 87)
      else if 65 \<le> n \<and> n \<le> 70 then Some (n - 55)
      else None)"

fun demo_fromHex :: "string \<Rightarrow> BinaryArray option" where
  "demo_fromHex [] = Some []"
| "demo_fromHex [c] = None"
| "demo_fromHex (c1 # c2 # rest) =
     (case (hex_value c1, hex_value c2, demo_fromHex rest) of
        (Some a, Some b, Some bs) \<Rightarrow> Some (of_nat (16 * a + b) # bs)
      | _ \<Rightarrow> None)"

definition demo_externals :: externals where
  "demo_externals =
     \<lparr>error_code_value = (\<lambda>c. - 5),
      NULL_PUBLIC_KEY = 0,
      TX_EXTRA_NONCE_MAX_COUNT = 255,
      MINIMUM_FEE = 100,
      COMMAND_RPC_GET_BLOCKS_FAST_MAX_COUNT = 1000,
      fromHex = demo_fromHex,
      toHex = demo_toHex,
      podToHex = (\<lambda>h. demo_toHex (pod_bytes h)),
      parse_hash256 = (\<lambda>s. case demo_fromHex s of
                               None \<Rightarrow> None
                             | Some b \<Rightarrow> if length b = 32 then Some (pod_of_bytes b) else None),
      toBinaryArray_Block = (\<lambda>b. [majorVersion b, minorVersion b] @ pod_bytes (previousBlockHash b)
                                   @ extra (baseTransaction b)
                                   @ of_nat (length (transactionHashes b))
                                     # concat (map pod_bytes (transactionHashes b))),
      toBinaryArray_Transaction = extra,
      getObjectBinarySize_Block = (\<lambda>b. of_nat (34 + length (extra (baseTransaction b)))),
      getObjectBinarySize_Transaction = (\<lambda>tx. of_nat (length (extra tx))),
      getObjectHash = (\<lambda>tx. if tx = demo_tx then 500 else 501),
      getTransactionPublicKeyFromExtra = (\<lambda>e. case e of [] \<Rightarrow> 0 | t # r \<Rightarrow> if t = 1 then pod_of_bytes r else 0),
      getPaymentIdFromTxExtra = (\<lambda>e. None),
      get_block_hashing_blob = (\<lambda>b. Some [majorVersion b, minorVersion b]),
      generate_key_derivation = (\<lambda>P s. if P = 0 then None else Some (P * s)),
      derive_public_key = (\<lambda>d i B. Derived (d + of_nat i + B))\<rparr>"

definition demo_core :: core where
  "demo_core =
     \<lparr>currency = demo_currency,
      get_miner = \<lparr>start = (\<lambda>a n. True), stop = True\<rparr>,
      get_current_blockchain_height = 3,
      getBlockIdByHeight = (\<lambda>h. if h < 3 then 100 + ucast h else 0),
      findBlockchainSupplement = (\<lambda>ids n. ([101, 102], 3, 1)),
      have_block = (\<lambda>h. h = 100 \<or> h = 101 \<or> h = 102),
      getBlock = (\<lambda>h. if h = 100 \<or> h = 101 \<or> h = 102
                       then Some \<lparr>iblock_getBlock = demo_block 0, iblock_transactions = [demo_tx]\<rparr>
                       else None),
      getBlockByHash = (\<lambda>h. if h = 100 \<or> h = 101 \<or> h = 102 then Some (demo_block 0) else None),
      getBlockSize = (\<lambda>h. (True, 300)),
      getBlockDifficulty = (\<lambda>h. (True, 5)),
      getMinimalFeeForHeight = (\<lambda>h. 100),
      getTransactions = (\<lambda>ids pool. (map (\<lambda>h. demo_tx) (filter (\<lambda>h. h = 500) ids),
                                        filter (\<lambda>h. h \<noteq> 500) ids)),
      getPoolTransactions = [demo_tx],
      getBlockContainingTx = (\<lambda>h. if h = 500 then Some (101, 1) else None),
      get_block_template = (\<lambda>a reserve. Some (demo_block (length reserve), 5, 3)),
      handle_incoming_block_blob =
        (\<lambda>b m r. \<lparr>m_added_to_main_chain = (b = [1]), m_verification_failed = (b = [])\<rparr>)\<rparr>"

definition demo_server :: RpcServer where
  "demo_server =
     \<lparr>m_core = demo_core, m_p2p = \<lparr>isSynchronized = False\<rparr>,
      m_protocolQuery = \<lparr>getObservedHeight = 3\<rparr>,
      m_restricted_rpc = True, m_cors_domain = []\<rparr>"

definition demo_table :: "string \<rightharpoonup> HandlerFunction RpcHandler" where
  "demo_table =
     [''/stop_mining'' \<mapsto>
        \<lparr>handler = jsonMethod (\<lambda>s. Some ()) status \<lparr>status = []\<rparr> on_stop_mining,
         allowBusyCore = False\<rparr>,
      ''/getheight'' \<mapsto>
        \<lparr>handler = (\<lambda>obj request response. (Inr (True, response\<lparr>body := ''{}''\<rparr>), [])),
         allowBusyCore = True\<rparr>]"

definition demo_response :: HttpResponse where
  "demo_response = \<lparr>http_status = STATUS_200, headers = [], body = []\<rparr>"

section \<open>Properties of the dispatch and of the operator handlers\<close>

text \<open>
  C7. With restricted mode enabled, \<^verbatim>\<open>start_mining\<close>, \<^verbatim>\<open>stop_mining\<close> and \<^verbatim>\<open>stop_daemon\<close>
  return failure with the status \<^verbatim>\<open>"Failed, restricted handle"\<close>, and their call logs are
  empty: the miner is neither started nor stopped, no address is parsed and no stop signal
  is sent.
\<close>

theorem restricted_mode_blocks_operator_handlers:
  assumes "m_restricted_rpc this"
  shows "on_start_mining this sreq res = (False, res\<lparr>status := ''Failed, restricted handle''\<rparr>, [])
       \<and> on_stop_mining this u res = (False, res\<lparr>status := ''Failed, restricted handle''\<rparr>, [])
       \<and> on_stop_daemon X this u res = (False, res\<lparr>status := ''Failed, restricted handle''\<rparr>, [])"
  using assms by (simp add: on_start_mining_def on_stop_mining_def on_stop_daemon_def)

theorem restricted_mode_blocks_operator_handlers_witness:
  "m_restricted_rpc demo_server
   \<and> on_start_mining demo_server \<lparr>miner_address = ''Kdemo'', threads_count = 2\<rparr> \<lparr>status = []\<rparr>
       = (False, \<lparr>status = ''Failed, restricted handle''\<rparr>, [])
   \<and> on_stop_mining demo_server () \<lparr>status = []\<rparr>
       = (False, \<lparr>status = ''Failed, restricted handle''\<rparr>, [])
   \<and> on_stop_daemon demo_externals demo_server () \<lparr>status = []\<rparr>
       = (False, \<lparr>status = ''Failed, restricted handle''\<rparr>, [])"
proof -
  have r: "m_restricted_rpc demo_server"
    by (simp add: demo_server_def)
  show ?thesis
    using r restricted_mode_blocks_operator_handlers
      [OF r, of "\<lparr>miner_address = ''Kdemo'', threads_count = 2\<rparr>" "\<lparr>status = []\<rparr>" "()" demo_externals]
    by simp
qed

text \<open>
  C6. Dispatch of an inbound HTTP request. A URL that is no key of the method table gives
  status 404 and an empty call log. A known URL whose entry disallows a busy core, on a node
  that is neither on the test network nor synchronized, gives status 500 with the body
  \<^verbatim>\<open>"Core is busy"\<close> and an empty call log. In every other case the bound handler is
  invoked on the request and the response, and the result is the handler's.
\<close>

theorem processRequest_dispatch:
  "(s_handlers (url request) = None \<longrightarrow>
      processRequest s_handlers this request response
        = (Inr (response\<lparr>http_status := STATUS_404\<rparr>), []))
   \<and> (\<forall>it. s_handlers (url request) = Some it \<and> \<not> allowBusyCore it
          \<and> \<not> isTestnet (currency (m_core this)) \<and> \<not> isSynchronized (m_p2p this) \<longrightarrow>
        processRequest s_handlers this request response
          = (Inr (response\<lparr>http_status := STATUS_500, body := ''Core is busy''\<rparr>), []))
   \<and> (\<forall>it. s_handlers (url request) = Some it
          \<and> (allowBusyCore it \<or> isTestnet (currency (m_core this)) \<or> isSynchronized (m_p2p this)) \<longrightarrow>
        processRequest s_handlers this request response
          = (map_sum id snd (fst (handler it this request response)),
             Invoke (url request) # snd (handler it this request response)))"
  by (auto simp: processRequest_def isCoreReady_def split: prod.splits sum.splits)

theorem processRequest_dispatch_witness:
  "processRequest demo_table demo_server \<lparr>url = ''/getheight/'', request_body = []\<rparr> demo_response
     = (Inr (demo_response\<lparr>http_status := STATUS_404\<rparr>), [])
   \<and> processRequest demo_table demo_server \<lparr>url = ''/stop_mining'', request_body = []\<rparr> demo_response
     = (Inr (demo_response\<lparr>http_status := STATUS_500, body := ''Core is busy''\<rparr>), [])
   \<and> processRequest demo_table demo_server \<lparr>url = ''/getheight'', request_body = []\<rparr> demo_response
     = (Inr (demo_response\<lparr>body := ''{}''\<rparr>), [Invoke ''/getheight''])"
  using
    processRequest_dispatch
      [of demo_table "\<lparr>url = ''/getheight/'', request_body = []\<rparr>" demo_server demo_response]
    processRequest_dispatch
      [of demo_table "\<lparr>url = ''/stop_mining'', request_body = []\<rparr>" demo_server demo_response]
    processRequest_dispatch
      [of demo_table "\<lparr>url = ''/getheight'', request_body = []\<rparr>" demo_server demo_response]
  by (simp add: demo_table_def demo_server_def demo_core_def demo_currency_def)

section \<open>Properties of the flat handlers\<close>

text \<open>
  C2. A \<^verbatim>\<open>get_blocks\<close> request whose locator is empty or ends in another id than the id of
  the block at height 0 returns failure with the status \<^verbatim>\<open>"Failed"\<close>. The response is the
  incoming one with only its status changed, so it carries no blocks, and the call log holds
  at most the lookup of the genesis id: no supplement search and no block retrieval.
\<close>

theorem on_get_blocks_rejects_foreign_genesis:
  assumes "block_ids req = [] \<or> last (block_ids req) \<noteq> getBlockIdByHeight (m_core this) 0"
  shows "on_get_blocks X this req res =
           (Some (False, res\<lparr>status := ''Failed''\<rparr>),
            if block_ids req = [] then [] else [GetBlockIdByHeight 0])
         \<and> blocks (res\<lparr>status := ''Failed''\<rparr>) = blocks res"
  using assms by (auto simp: on_get_blocks_def)

definition demo_get_blocks_response :: GET_BLOCKS_FAST_response where
  "demo_get_blocks_response = \<lparr>status = [], blocks = [], start_height = 0, current_height = 0\<rparr>"

theorem on_get_blocks_rejects_foreign_genesis_witness:
  "last (block_ids \<lparr>block_ids = [102, 55]\<rparr>) \<noteq> getBlockIdByHeight (m_core demo_server) 0
   \<and> on_get_blocks demo_externals demo_server \<lparr>block_ids = [102, 55]\<rparr> demo_get_blocks_response =
       (Some (False, \<lparr>status = ''Failed'', blocks = [], start_height = 0, current_height = 0\<rparr>),
        [GetBlockIdByHeight 0])"
proof -
  have h: "block_ids \<lparr>block_ids = [102, 55]\<rparr> = []
           \<or> last (block_ids \<lparr>block_ids = [102, 55]\<rparr>) \<noteq> getBlockIdByHeight (m_core demo_server) 0"
    by (simp add: demo_server_def demo_core_def)
  show ?thesis
    using h on_get_blocks_rejects_foreign_genesis [OF h, of demo_externals demo_get_blocks_response]
    by (simp add: demo_get_blocks_response_def)
qed

text \<open>
  C3. \<^verbatim>\<open>submitblock\<close> with one parameter that decodes from hex: when the core does not add
  the block to the main chain the handler throws the JSON-RPC error with the
  block-not-accepted code and the message \<^verbatim>\<open>"Block not accepted"\<close>, whatever else the core
  reports about the block; and the handler returns with status OK exactly when the request
  has one parameter, it decodes, and the core adds the block to the main chain.
\<close>

theorem on_submitblock_main_chain_only:
  "(\<forall>hex blockblob.
      req = [hex] \<and> fromHex X hex = Some blockblob
      \<and> \<not> m_added_to_main_chain (handle_incoming_block_blob (m_core this) blockblob True True) \<longrightarrow>
      on_submitblock X this req res =
        Inl (ThrowJsonRpcError
              (JsonRpcErrorMsg CORE_RPC_ERROR_CODE_BLOCK_NOT_ACCEPTED ''Block not accepted'')))
   \<and> ((\<exists>result res'. on_submitblock X this req res = Inr (result, res')
                      \<and> status res' = CORE_RPC_STATUS_OK)
        \<longleftrightarrow> (\<exists>hex blockblob.
               req = [hex] \<and> fromHex X hex = Some blockblob
               \<and> m_added_to_main_chain (handle_incoming_block_blob (m_core this) blockblob True True)))"
proof (intro conjI allI impI iffI)
  fix hex blockblob
  assume "req = [hex] \<and> fromHex X hex = Some blockblob
      \<and> \<not> m_added_to_main_chain (handle_incoming_block_blob (m_core this) blockblob True True)"
  then show "on_submitblock X this req res =
        Inl (ThrowJsonRpcError
              (JsonRpcErrorMsg CORE_RPC_ERROR_CODE_BLOCK_NOT_ACCEPTED ''Block not accepted''))"
    by (simp add: on_submitblock_def throw_def)
next
  assume "\<exists>result res'. on_submitblock X this req res = Inr (result, res')
                      \<and> status res' = CORE_RPC_STATUS_OK"
  then obtain result res' where r: "on_submitblock X this req res = Inr (result, res')"
    by blast
  from r have len: "length req = 1"
    by (auto simp: on_submitblock_def throw_def split: if_splits)
  then obtain hex where req: "req = [hex]"
    by (cases req) auto
  from r req obtain blockblob where b: "fromHex X hex = Some blockblob"
    by (auto simp: on_submitblock_def throw_def split: option.splits)
  from r req b have "m_added_to_main_chain (handle_incoming_block_blob (m_core this) blockblob True True)"
    by (auto simp: on_submitblock_def throw_def Let_def split: if_splits)
  with req b show "\<exists>hex blockblob.
               req = [hex] \<and> fromHex X hex = Some blockblob
               \<and> m_added_to_main_chain (handle_incoming_block_blob (m_core this) blockblob True True)"
    by blast
next
  assume "\<exists>hex blockblob.
               req = [hex] \<and> fromHex X hex = Some blockblob
               \<and> m_added_to_main_chain (handle_incoming_block_blob (m_core this) blockblob True True)"
  then show "\<exists>result res'. on_submitblock X this req res = Inr (result, res')
                      \<and> status res' = CORE_RPC_STATUS_OK"
    by (auto simp: on_submitblock_def)
qed

theorem on_submitblock_main_chain_only_witness:
  "on_submitblock demo_externals demo_server [''00''] \<lparr>status = []\<rparr> =
     Inl (ThrowJsonRpcError
           (JsonRpcErrorMsg CORE_RPC_ERROR_CODE_BLOCK_NOT_ACCEPTED ''Block not accepted''))
   \<and> \<not> m_verification_failed (handle_incoming_block_blob (m_core demo_server) [0] True True)
   \<and> (\<exists>result res'. on_submitblock demo_externals demo_server [''01''] \<lparr>status = []\<rparr> = Inr (result, res')
                      \<and> status res' = CORE_RPC_STATUS_OK)"
proof -
  have f0: "fromHex demo_externals ''00'' = Some [0]"
    by (simp add: demo_externals_def hex_value_def)
  have f1: "fromHex demo_externals ''01'' = Some [1]"
    by (simp add: demo_externals_def hex_value_def)
  have n0: "\<not> m_added_to_main_chain (handle_incoming_block_blob (m_core demo_server) [0] True True)"
    and v0: "\<not> m_verification_failed (handle_incoming_block_blob (m_core demo_server) [0] True True)"
    and a1: "m_added_to_main_chain (handle_incoming_block_blob (m_core demo_server) [1] True True)"
    by (simp_all add: demo_server_def demo_core_def)
  have "on_submitblock demo_externals demo_server [''00''] \<lparr>status = []\<rparr> =
     Inl (ThrowJsonRpcError
           (JsonRpcErrorMsg CORE_RPC_ERROR_CODE_BLOCK_NOT_ACCEPTED ''Block not accepted''))"
    using on_submitblock_main_chain_only [of "[''00'']" demo_externals demo_server "\<lparr>status = []\<rparr>"]
      f0 n0 by blast
  moreover have "\<exists>result res'.
      on_submitblock demo_externals demo_server [''01''] \<lparr>status = []\<rparr> = Inr (result, res')
      \<and> status res' = CORE_RPC_STATUS_OK"
    using on_submitblock_main_chain_only [of "[''01'']" demo_externals demo_server "\<lparr>status = []\<rparr>"]
      f1 a1 by blast
  ultimately show ?thesis
    using v0 by simp
qed

subsection \<open>\<^verbatim>\<open>gettransactions\<close> and hashes of the wrong size\<close>










section \<open>The reserved offset of a block template\<close>

text \<open>\<open>occurs_at blob pat p\<close>: the bytes \<open>pat\<close> stand in \<open>blob\<close> at the offset \<open>p\<close>.\<close>

definition occurs_at :: "BinaryArray \<Rightarrow> BinaryArray \<Rightarrow> nat \<Rightarrow> bool" where
  "occurs_at blob pat p \<longleftrightarrow> p + length pat \<le> length blob \<and> take (length pat) (drop p blob) = pat"

lemma occurs_at_first_byte:
  assumes "occurs_at blob pat p" and "pat \<noteq> []"
  shows "p < length blob" and "blob ! p = pat ! 0"
proof -
  from assms show p: "p < length blob"
    by (cases pat) (auto simp: occurs_at_def)
  from assms have "take (length pat) (drop p blob) ! 0 = pat ! 0"
    by (simp add: occurs_at_def)
  then show "blob ! p = pat ! 0"
    using assms(2) p by simp
qed

lemma occurs_at_slice:
  assumes "p + length pat \<le> length blob"
  shows "take (length pat) (drop p blob) = take (length pat) pat \<longleftrightarrow> occurs_at blob pat p"
  using assms by (simp add: occurs_at_def)


text \<open>The search returns the first offset from \<open>buf\<close> on at which the pattern stands.\<close>

lemma slow_memmem_loop_first:
  assumes "occurs_at blob pat p0" and "buf \<le> p0" and "\<forall>p. buf \<le> p \<and> p < p0 \<longrightarrow> \<not> occurs_at blob pat p"
    and "pat \<noteq> []"
  shows "slow_memmem_loop blob (length blob) pat (length pat) buf = Some p0"
  using assms
proof (induction blob "length blob" pat "length pat" buf rule: slow_memmem_loop.induct)
  case (1 mem pat buf)
  note occ = \<open>occurs_at mem pat p0\<close>
  note ne = \<open>pat \<noteq> []\<close>
  have p0: "p0 < length mem" and c: "mem ! p0 = pat ! 0"
    using occurs_at_first_byte [OF occ ne] by simp_all
  have p0n: "p0 < buf + length mem"
    using p0 by simp
  show ?case
  proof (cases "memchr mem buf (pat ! 0) (length mem)")
    case ReadPastEnd
    then have "memchr mem buf (pat ! 0) (length mem) = ReadPastEnd
               \<or> memchr mem buf (pat ! 0) (length mem) = NullPointer"
      by simp
    from memchr_no_Pointer [OF this \<open>buf \<le> p0\<close> p0n p0] c show ?thesis
      by simp
  next
    case NullPointer
    then have "memchr mem buf (pat ! 0) (length mem) = ReadPastEnd
               \<or> memchr mem buf (pat ! 0) (length mem) = NullPointer"
      by simp
    from memchr_no_Pointer [OF this \<open>buf \<le> p0\<close> p0n p0] c show ?thesis
      by simp
  next
    case (Pointer q)
    have bq: "buf \<le> q"
      using Pointer by (rule memchr_Pointer)
    have qp: "q \<le> p0"
    proof (rule ccontr)
      assume "\<not> q \<le> p0"
      then have "p0 < q" by simp
      from memchr_Pointer(5) [OF Pointer \<open>buf \<le> p0\<close> this] c show False
        by simp
    qed
    from occ have "p0 + length pat \<le> length mem"
      by (simp add: occurs_at_def)
    with qp have fits: "q + length pat \<le> length mem"
      by simp
    then have notbeyond: "\<not> int q > int (length mem) - int (length pat)"
      by simp
    from fits have inside: "\<not> (length mem < q + length pat \<or> length pat < length pat)"
      by simp
    show ?thesis
    proof (cases "take (length pat) (drop q mem) = take (length pat) pat")
      case True
      with occurs_at_slice [OF fits] have "occurs_at mem pat q"
        by blast
      with "1.prems"(3) bq qp have "q = p0"
        by force
      with Pointer notbeyond inside True ne show ?thesis
        by (subst slow_memmem_loop.simps) simp
    next
      case False
      with occurs_at_slice [OF fits] have "\<not> occurs_at mem pat q"
        by blast
      with occ qp have "q + 1 \<le> p0"
        by (cases "q = p0") auto
      moreover from "1.prems"(3) bq
      have "\<forall>p. q + 1 \<le> p \<and> p < p0 \<longrightarrow> \<not> occurs_at mem pat p"
        by simp
      ultimately
      have "slow_memmem_loop mem (length mem) pat (length pat) (q + 1) = Some p0"
        using "1.hyps" [OF ne Pointer notbeyond inside False] occ ne by simp
      with Pointer notbeyond inside False ne show ?thesis
        by (subst slow_memmem_loop.simps) simp
    qed
  qed
qed

lemma length_pod_bytes: "length (pod_bytes k) = sizeof_PublicKey"
  by (simp add: pod_bytes_def sizeof_PublicKey_def)

lemma pod_bytes_not_Nil: "pod_bytes k \<noteq> []"
  using length_pod_bytes [of k] by (auto simp: sizeof_PublicKey_def)

definition first_occurrence :: "BinaryArray \<Rightarrow> BinaryArray \<Rightarrow> nat \<Rightarrow> bool" where
  "first_occurrence blob pat p \<longleftrightarrow> occurs_at blob pat p \<and> (\<forall>p' < p. \<not> occurs_at blob pat p')"

lemma first_occurrence_Least:
  "first_occurrence blob pat p \<longleftrightarrow> occurs_at blob pat p \<and> p = (LEAST p. occurs_at blob pat p)"
  unfolding first_occurrence_def
  by (metis LeastI Least_le leD le_neq_implies_less not_less_Least)

lemma first_occurrence_unique:
  "first_occurrence blob pat p \<Longrightarrow> first_occurrence blob pat p' \<Longrightarrow> p = p'"
  by (simp add: first_occurrence_Least)

lemma slow_memmem_key_found:
  assumes "first_occurrence blob (pod_bytes k) p"
  shows "slow_memmem blob (length blob) (pod_bytes k) sizeof_PublicKey = Some p"
proof -
  from assms have occ: "occurs_at blob (pod_bytes k) p"
    and least: "\<forall>p'. 0 \<le> p' \<and> p' < p \<longrightarrow> \<not> occurs_at blob (pod_bytes k) p'"
    by (simp_all add: first_occurrence_def)
  have "slow_memmem_loop blob (length blob) (pod_bytes k) (length (pod_bytes k)) 0 = Some p"
    by (rule slow_memmem_loop_first [OF occ _ least pod_bytes_not_Nil]) simp
  then show ?thesis
    by (simp add: slow_memmem_def length_pod_bytes)
qed




lemma getblocktemplate_reserved_offset_found:
  assumes "0 < reserve" and "first_occurrence blob (pod_bytes k) p"
  shows "getblocktemplate_reserved_offset reserve blob k =
           (if p = 0 \<or> length blob < p + sizeof_PublicKey + 3 + reserve
            then Some (Inl JsonRpcError_template)
            else Some (Inr (p + sizeof_PublicKey + 3)))"
  using assms(1) slow_memmem_key_found [OF assms(2)]
  by (auto simp: getblocktemplate_reserved_offset_def)





section \<open>The list of block summaries\<close>




















section \<open>The fee of a transaction summary\<close>

text \<open>
  The functions that give the money of a transaction are defined outside this file
  (\<^verbatim>\<open>get_inputs_money_amount\<close> and \<^verbatim>\<open>get_outs_money_amount\<close> in \<^verbatim>\<open>CryptoNoteFormatUtils\<close>,
  \<^verbatim>\<open>getInputAmount\<close> and \<^verbatim>\<open>getOutputAmount\<close> in \<^verbatim>\<open>CryptoNoteTools\<close>): they are parameters.
  \<open>get_inputs_money_amount\<close> is the value the call leaves in its reference parameter, which
  every caller has set to 0 before.
\<close>

record money_amounts =
  get_inputs_money_amount :: "Transaction \<Rightarrow> u64"
  get_outs_money_amount :: "Transaction \<Rightarrow> u64"
  getInputAmount :: "Transaction \<Rightarrow> u64"
  getOutputAmount :: "Transaction \<Rightarrow> u64"

record f_transaction_short_response =
  ts_hash :: string
  ts_fee :: u64
  ts_amount_out :: u64
  ts_size :: u64

subsection \<open>\<^verbatim>\<open>f_on_pool_json\<close>\<close>

record F_GET_POOL_response = status_response +
  pool_transactions :: "f_transaction_short_response list"

text \<open>The body of the loop over the pool (lines 862-873): the summary of one transaction.\<close>

definition pool_transaction_short ::
  "externals \<Rightarrow> money_amounts \<Rightarrow> Transaction \<Rightarrow> f_transaction_short_response" where
  "pool_transaction_short X U tx =
     (let amount_in = getInputAmount U tx;
          amount_out = getOutputAmount U tx
      in \<lparr>ts_hash = podToHex X (getObjectHash X tx),
          ts_fee = (if amount_in < amount_out + MINIMUM_FEE X then MINIMUM_FEE X
                    else amount_in - amount_out),
          ts_amount_out = amount_out,
          ts_size = getObjectBinarySize_Transaction X tx\<rparr>)"

text \<open>\<^verbatim>\<open>f_on_pool_json\<close> (lines 860-876).\<close>

definition f_on_pool_json ::
  "externals \<Rightarrow> money_amounts \<Rightarrow> RpcServer \<Rightarrow> unit \<Rightarrow> F_GET_POOL_response \<Rightarrow>
   bool \<times> F_GET_POOL_response" where
  "f_on_pool_json X U this req res =
     (let pool = getPoolTransactions (m_core this)
      in (True,
          res\<lparr>pool_transactions := pool_transactions res @ map (pool_transaction_short X U) pool,
              status := CORE_RPC_STATUS_OK\<rparr>))"

subsection \<open>\<^verbatim>\<open>f_on_transaction_json\<close>\<close>

record F_GET_TRANSACTION_DETAILS_request =
  td_request_hash :: string

record f_transaction_details_response =
  td_hash :: string
  td_size :: u64
  td_paymentId :: string
  td_mixin :: u64
  td_fee :: u64
  td_amount_out :: u64
  td_confirmations :: u32

record F_GET_TRANSACTION_DETAILS_response = status_response +
  td_tx :: Transaction
  td_txDetails :: f_transaction_details_response
  td_block :: f_block_short_response

text \<open>\<^verbatim>\<open>f_getMixin\<close> (lines 900-912): the largest ring among the key inputs; it always succeeds.\<close>

fun f_getMixin_loop :: "TransactionInput list \<Rightarrow> u64 \<Rightarrow> u64" where
  "f_getMixin_loop [] mixin = mixin"
| "f_getMixin_loop (KeyInput a outputIndexes # rest) mixin =
     (let currentMixin = of_nat (length outputIndexes)
      in f_getMixin_loop rest (if currentMixin > mixin then currentMixin else mixin))"
| "f_getMixin_loop (txin # rest) mixin = f_getMixin_loop rest mixin"

definition f_getMixin :: "Transaction \<Rightarrow> bool \<times> u64" where
  "f_getMixin transaction = (True, f_getMixin_loop (inputs transaction) 0)"

text \<open>
  \<^verbatim>\<open>f_on_transaction_json\<close> (lines 787-858). The local \<^verbatim>\<open>block_short\<close> is declared without an
  initialiser and only five of its fields are set before it is copied into the response:
  \<open>fresh_block_short\<close> is what the declaration leaves in it.
\<close>

definition f_on_transaction_json ::
  "externals \<Rightarrow> money_amounts \<Rightarrow> f_block_short_response \<Rightarrow> RpcServer \<Rightarrow>
   F_GET_TRANSACTION_DETAILS_request \<Rightarrow> F_GET_TRANSACTION_DETAILS_response \<Rightarrow>
   F_GET_TRANSACTION_DETAILS_response outcome" where
  "f_on_transaction_json X U fresh_block_short this req res =
     (case parse_hash256 X (td_request_hash req) of
        None \<Rightarrow>
          throw CORE_RPC_ERROR_CODE_WRONG_PARAM
            (''Failed to parse hex representation of transaction hash. Hex = ''
             @ td_request_hash req @ ''.'')
      | Some hash \<Rightarrow>
          (case getTransactions (m_core this) [hash] True of
             (found_txs, missed_txs) \<Rightarrow>
               if length found_txs \<noteq> 1
               then throw CORE_RPC_ERROR_CODE_WRONG_PARAM
                      (''transaction wasn't found. Hash = '' @ td_request_hash req @ ''.'')
               else
                 (let res1 = res\<lparr>td_tx := hd found_txs\<rparr>;
                      res2 =
                        (case getBlockContainingTx (m_core this) hash of
                           None \<Rightarrow> res1
                         | Some (blockHash, blockHeight) \<Rightarrow>
                             (case getBlockByHash (m_core this) blockHash of
                                None \<Rightarrow> res1
                              | Some blk \<Rightarrow>
                                  (let tx_cumulative_block_size = snd (getBlockSize (m_core this) blockHash);
                                       blokBlobSize = getObjectBinarySize_Block X blk;
                                       minerTxBlobSize =
                                         getObjectBinarySize_Transaction X (baseTransaction blk);
                                       block_short =
                                         fresh_block_short
                                           \<lparr>bs_timestamp := timestamp blk,
                                            bs_height := blockHeight,
                                            bs_hash := podToHex X blockHash,
                                            cumul_size := blokBlobSize + tx_cumulative_block_size
                                                          - minerTxBlobSize,
                                            tx_count := of_nat (length (transactionHashes blk)) + 1\<rparr>
                                   in res1\<lparr>td_block := block_short,
                                           td_txDetails := (td_txDetails res1)
                                             \<lparr>td_confirmations :=
                                                getObservedHeight (m_protocolQuery this) - blockHeight\<rparr>\<rparr>)));
                      amount_in = get_inputs_money_amount U (td_tx res2);
                      amount_out = get_outs_money_amount U (td_tx res2);
                      details1 = (td_txDetails res2)
                                   \<lparr>td_hash := podToHex X (getObjectHash X (td_tx res2)),
                                    td_fee := (if amount_in = 0 then 0 else amount_in - amount_out),
                                    td_amount_out := amount_out,
                                    td_size := getObjectBinarySize_Transaction X (td_tx res2)\<rparr>
                  in case f_getMixin (td_tx res2) of
                       (got_mixin, mixin) \<Rightarrow>
                         if \<not> got_mixin then Inr (False, res2\<lparr>td_txDetails := details1\<rparr>)
                         else
                           (let details2 = details1
                                  \<lparr>td_mixin := mixin,
                                   td_paymentId :=
                                     (case getPaymentIdFromTxExtra X (extra (td_tx res2)) of
                                        Some paymentId \<Rightarrow> podToHex X paymentId
                                      | None \<Rightarrow> [])\<rparr>
                            in Inr (True, res2\<lparr>td_txDetails := details2,
                                               status := CORE_RPC_STATUS_OK\<rparr>)))))"

subsection \<open>The transactions of \<^verbatim>\<open>f_on_block_json\<close>\<close>

text \<open>
  The end of \<^verbatim>\<open>f_on_block_json\<close> (lines 753-784), which every call runs that has neither
  thrown nor returned \<open>false\<close> while the header fields were filled: it appends the summary of
  the base transaction and then one summary for every transaction of the block that the
  core finds, and sums their fees. \<open>blk\<close> is the block that the handler has read.
\<close>

record f_block_details_transactions =
  bd_transactions :: "f_transaction_short_response list"
  bd_totalFeeAmount :: u64

definition base_transaction_short ::
  "externals \<Rightarrow> money_amounts \<Rightarrow> Transaction \<Rightarrow> f_transaction_short_response" where
  "base_transaction_short X U tx =
     \<lparr>ts_hash = podToHex X (getObjectHash X tx),
      ts_fee = 0,
      ts_amount_out = get_outs_money_amount U tx,
      ts_size = getObjectBinarySize_Transaction X tx\<rparr>"

definition block_transaction_short ::
  "externals \<Rightarrow> money_amounts \<Rightarrow> Transaction \<Rightarrow> f_transaction_short_response" where
  "block_transaction_short X U tx =
     (let amount_in = get_inputs_money_amount U tx;
          amount_out = get_outs_money_amount U tx
      in \<lparr>ts_hash = podToHex X (getObjectHash X tx),
          ts_fee = amount_in - amount_out,
          ts_amount_out = amount_out,
          ts_size = getObjectBinarySize_Transaction X tx\<rparr>)"

fun f_on_block_json_loop ::
  "externals \<Rightarrow> money_amounts \<Rightarrow> Transaction list \<Rightarrow> f_block_details_transactions \<Rightarrow>
   f_block_details_transactions" where
  "f_on_block_json_loop X U [] res_block = res_block"
| "f_on_block_json_loop X U (tx # rest) res_block =
     (let transaction_short = block_transaction_short X U tx
      in f_on_block_json_loop X U rest
           (res_block\<lparr>bd_transactions := bd_transactions res_block @ [transaction_short],
                  bd_totalFeeAmount := bd_totalFeeAmount res_block + ts_fee transaction_short\<rparr>))"

definition f_on_block_json_transactions ::
  "externals \<Rightarrow> money_amounts \<Rightarrow> RpcServer \<Rightarrow> Block \<Rightarrow> f_block_details_transactions \<Rightarrow>
   f_block_details_transactions" where
  "f_on_block_json_transactions X U this blk res_block =
     (let res_block1 = res_block\<lparr>bd_transactions :=
                     bd_transactions res_block @ [base_transaction_short X U (baseTransaction blk)]\<rparr>
      in case getTransactions (m_core this) (transactionHashes blk) False of
           (found_txs, missed_txs) \<Rightarrow>
             f_on_block_json_loop X U found_txs (res_block1\<lparr>bd_totalFeeAmount := 0\<rparr>))"

text \<open>The money of a transaction as the sums over its inputs and over its outputs.\<close>

fun input_amount :: "TransactionInput \<Rightarrow> u64" where
  "input_amount (BaseInput blockIndex) = 0"
| "input_amount (KeyInput a outputIndexes) = a"
| "input_amount (MultisignatureInput a) = a"

definition demo_amounts :: money_amounts where
  "demo_amounts =
     \<lparr>get_inputs_money_amount = (\<lambda>tx. sum_list (map input_amount (inputs tx))),
      get_outs_money_amount = (\<lambda>tx. sum_list (map amount (outputs tx))),
      getInputAmount = (\<lambda>tx. sum_list (map input_amount (inputs tx))),
      getOutputAmount = (\<lambda>tx. sum_list (map amount (outputs tx)))\<rparr>"

definition demo_pool_response :: F_GET_POOL_response where
  "demo_pool_response = \<lparr>status = [], pool_transactions = []\<rparr>"

definition demo_block_transactions :: f_block_details_transactions where
  "demo_block_transactions = \<lparr>bd_transactions = [], bd_totalFeeAmount = 0\<rparr>"

lemma f_on_block_json_loop_transactions:
  "bd_transactions (f_on_block_json_loop X U found_txs res_block) =
     bd_transactions res_block @ map (block_transaction_short X U) found_txs"
  by (induction found_txs arbitrary: res_block) (simp_all add: Let_def)

lemma f_on_block_json_loop_total:
  "bd_totalFeeAmount (f_on_block_json_loop X U found_txs res_block) =
     bd_totalFeeAmount res_block + sum_list (map (\<lambda>tx. ts_fee (block_transaction_short X U tx)) found_txs)"
  by (induction found_txs arbitrary: res_block) (simp_all add: Let_def algebra_simps)

lemma f_on_transaction_json_fee:
  assumes "f_on_transaction_json X U fresh this req res = Inr (result, res')"
  shows "result = True
       \<and> (\<exists>hash missed. parse_hash256 X (td_request_hash req) = Some hash
             \<and> getTransactions (m_core this) [hash] True = ([td_tx res'], missed))
       \<and> td_fee (td_txDetails res') =
           (if get_inputs_money_amount U (td_tx res') = 0 then 0
            else get_inputs_money_amount U (td_tx res') - get_outs_money_amount U (td_tx res'))"
proof -
  from assms obtain hash where hash: "parse_hash256 X (td_request_hash req) = Some hash"
    by (auto simp: f_on_transaction_json_def throw_def split: option.splits)
  obtain found_txs missed where got: "getTransactions (m_core this) [hash] True = (found_txs, missed)"
    by (cases "getTransactions (m_core this) [hash] True")
  from assms hash got have one: "length found_txs = 1"
    by (auto simp: f_on_transaction_json_def throw_def split: if_splits)
  then obtain tx where tx: "found_txs = [tx]"
    by (cases found_txs) auto
  from assms have "result = True \<and> td_tx res' = tx
       \<and> td_fee (td_txDetails res') =
           (if get_inputs_money_amount U tx = 0 then 0
            else get_inputs_money_amount U tx - get_outs_money_amount U tx)"
    by (simp add: f_on_transaction_json_def hash got tx f_getMixin_def Let_def
        split: option.splits prod.splits) auto
  with hash got tx show ?thesis
    by auto
qed

lemma f_on_block_json_transactions_list:
  assumes "getTransactions (m_core this) (transactionHashes blk) False = (found_txs, missed_txs)"
  shows "bd_transactions (f_on_block_json_transactions X U this blk res_block) =
           bd_transactions res_block @ base_transaction_short X U (baseTransaction blk)
             # map (block_transaction_short X U) found_txs"
    and "bd_totalFeeAmount (f_on_block_json_transactions X U this blk res_block) =
           sum_list (map (\<lambda>tx. get_inputs_money_amount U tx - get_outs_money_amount U tx) found_txs)"
  using assms
  by (simp_all add: f_on_block_json_transactions_def f_on_block_json_loop_transactions
      f_on_block_json_loop_total block_transaction_short_def Let_def)

text \<open>
  C8, as the handlers have it. The pool listing appends one summary for every transaction of
  the pool; its fee is the minimum fee when the input amount is below the output amount plus
  the minimum fee (a 64-bit sum), and the input amount less the output amount otherwise. The
  transaction details report the fee 0 when the input amount is 0, and the input amount less
  the output amount (modulo \<open>2^64\<close>) otherwise. The block details append the summary of the
  base transaction with the fee 0, then one summary for every transaction of the block that
  the core finds, with the fee input amount less output amount (modulo \<open>2^64\<close>), and the total
  fee is the sum of these.
\<close>

theorem transaction_short_fee:
  assumes "getTransactions (m_core this) (transactionHashes blk) False = (found_txs, missed_txs)"
  shows "(\<forall>k < length (getPoolTransactions (m_core this)).
            ts_fee (pool_transactions (snd (f_on_pool_json X U this req pool_res))
                      ! (length (pool_transactions pool_res) + k)) =
              (if getInputAmount U (getPoolTransactions (m_core this) ! k)
                  < getOutputAmount U (getPoolTransactions (m_core this) ! k) + MINIMUM_FEE X
               then MINIMUM_FEE X
               else getInputAmount U (getPoolTransactions (m_core this) ! k)
                    - getOutputAmount U (getPoolTransactions (m_core this) ! k)))
       \<and> length (pool_transactions (snd (f_on_pool_json X U this req pool_res))) =
           length (pool_transactions pool_res) + length (getPoolTransactions (m_core this))
       \<and> (\<forall>result res'.
            f_on_transaction_json X U fresh this tx_req tx_res = Inr (result, res') \<longrightarrow>
            result = True
            \<and> (\<exists>hash missed. parse_hash256 X (td_request_hash tx_req) = Some hash
                  \<and> getTransactions (m_core this) [hash] True = ([td_tx res'], missed))
            \<and> td_fee (td_txDetails res') =
                (if get_inputs_money_amount U (td_tx res') = 0 then 0
                 else get_inputs_money_amount U (td_tx res') - get_outs_money_amount U (td_tx res')))
       \<and> length (bd_transactions (f_on_block_json_transactions X U this blk res_block)) =
           length (bd_transactions res_block) + 1 + length found_txs
       \<and> ts_fee (bd_transactions (f_on_block_json_transactions X U this blk res_block)
                   ! length (bd_transactions res_block)) = 0
       \<and> (\<forall>k < length found_txs.
            ts_fee (bd_transactions (f_on_block_json_transactions X U this blk res_block)
                      ! (length (bd_transactions res_block) + 1 + k)) =
              get_inputs_money_amount U (found_txs ! k) - get_outs_money_amount U (found_txs ! k))
       \<and> bd_totalFeeAmount (f_on_block_json_transactions X U this blk res_block) =
           sum_list (map (\<lambda>tx. get_inputs_money_amount U tx - get_outs_money_amount U tx) found_txs)"
proof -
  have pool: "\<forall>k < length (getPoolTransactions (m_core this)).
            ts_fee (pool_transactions (snd (f_on_pool_json X U this req pool_res))
                      ! (length (pool_transactions pool_res) + k)) =
              (if getInputAmount U (getPoolTransactions (m_core this) ! k)
                  < getOutputAmount U (getPoolTransactions (m_core this) ! k) + MINIMUM_FEE X
               then MINIMUM_FEE X
               else getInputAmount U (getPoolTransactions (m_core this) ! k)
                    - getOutputAmount U (getPoolTransactions (m_core this) ! k))"
    by (simp add: f_on_pool_json_def pool_transaction_short_def Let_def nth_append)
  have pool_length: "length (pool_transactions (snd (f_on_pool_json X U this req pool_res))) =
           length (pool_transactions pool_res) + length (getPoolTransactions (m_core this))"
    by (simp add: f_on_pool_json_def Let_def)
  have details: "\<forall>result res'.
            f_on_transaction_json X U fresh this tx_req tx_res = Inr (result, res') \<longrightarrow>
            result = True
            \<and> (\<exists>hash missed. parse_hash256 X (td_request_hash tx_req) = Some hash
                  \<and> getTransactions (m_core this) [hash] True = ([td_tx res'], missed))
            \<and> td_fee (td_txDetails res') =
                (if get_inputs_money_amount U (td_tx res') = 0 then 0
                 else get_inputs_money_amount U (td_tx res') - get_outs_money_amount U (td_tx res'))"
    using f_on_transaction_json_fee [of X U fresh this tx_req tx_res] by blast
  note block = f_on_block_json_transactions_list [OF assms, of X U res_block]
  have block_length: "length (bd_transactions (f_on_block_json_transactions X U this blk res_block)) =
           length (bd_transactions res_block) + 1 + length found_txs"
    by (simp add: block(1))
  have base: "ts_fee (bd_transactions (f_on_block_json_transactions X U this blk res_block)
                   ! length (bd_transactions res_block)) = 0"
    by (simp add: block(1) base_transaction_short_def)
  have others: "\<forall>k < length found_txs.
            ts_fee (bd_transactions (f_on_block_json_transactions X U this blk res_block)
                      ! (length (bd_transactions res_block) + 1 + k)) =
              get_inputs_money_amount U (found_txs ! k) - get_outs_money_amount U (found_txs ! k)"
    by (simp add: block(1) nth_append block_transaction_short_def Let_def)
  from pool pool_length details block_length base others block(2) show ?thesis
    by (intro conjI)
qed

text \<open>The hexadecimal form of the id 500 of the example transaction.\<close>

definition demo_tx_hash_hex :: string where
  "demo_tx_hash_hex = ''f401000000000000000000000000000000000000000000000000000000000000''"

definition demo_transaction_details_response :: F_GET_TRANSACTION_DETAILS_response where
  "demo_transaction_details_response =
     \<lparr>status = [],
      td_tx = \<lparr>inputs = [], outputs = [], extra = []\<rparr>,
      td_txDetails = \<lparr>td_hash = [], td_size = 0, td_paymentId = [], td_mixin = 0, td_fee = 0,
                      td_amount_out = 0, td_confirmations = 0\<rparr>,
      td_block = \<lparr>bs_timestamp = 0, bs_height = 0, bs_hash = [], cumul_size = 0, tx_count = 0,
                  bs_difficulty = 0, min_tx_fee = 0\<rparr>\<rparr>"

lemma demo_tx_hash_parse: "parse_hash256 demo_externals demo_tx_hash_hex = Some 500"
  by code_simp

lemma demo_amounts_demo_tx:
  "get_inputs_money_amount demo_amounts demo_tx = 50" "get_outs_money_amount demo_amounts demo_tx = 45"
  "getInputAmount demo_amounts demo_tx = 50" "getOutputAmount demo_amounts demo_tx = 45"
  by (simp_all add: demo_amounts_def demo_tx_def)

theorem transaction_short_fee_witness:
  "getTransactions (m_core demo_server) (transactionHashes (demo_block 0)) False = ([demo_tx], [])
   \<and> getPoolTransactions (m_core demo_server) = [demo_tx]
   \<and> ts_fee (pool_transactions
               (snd (f_on_pool_json demo_externals demo_amounts demo_server () demo_pool_response)) ! 0) = 100
   \<and> (\<exists>res'. f_on_transaction_json demo_externals demo_amounts
                 (td_block demo_transaction_details_response) demo_server
                 \<lparr>td_request_hash = demo_tx_hash_hex\<rparr> demo_transaction_details_response
               = Inr (True, res')
             \<and> td_tx res' = demo_tx \<and> td_fee (td_txDetails res') = 5)
   \<and> ts_fee (bd_transactions (f_on_block_json_transactions demo_externals demo_amounts demo_server
                                 (demo_block 0) demo_block_transactions) ! 0) = 0
   \<and> ts_fee (bd_transactions (f_on_block_json_transactions demo_externals demo_amounts demo_server
                                 (demo_block 0) demo_block_transactions) ! 1) = 5
   \<and> bd_totalFeeAmount (f_on_block_json_transactions demo_externals demo_amounts demo_server
                           (demo_block 0) demo_block_transactions) = 5"
proof -
  let ?fresh = "td_block demo_transaction_details_response"
  let ?req = "\<lparr>td_request_hash = demo_tx_hash_hex\<rparr>"
  have found: "getTransactions (m_core demo_server) (transactionHashes (demo_block 0)) False
               = ([demo_tx], [])"
    by (simp add: demo_server_def demo_core_def demo_block_def)
  have pool: "getPoolTransactions (m_core demo_server) = [demo_tx]"
    by (simp add: demo_server_def demo_core_def)
  have fee: "MINIMUM_FEE demo_externals = 100"
    by (simp add: demo_externals_def)
  have got: "getTransactions (m_core demo_server) [500] True = ([demo_tx], [])"
    by (simp add: demo_server_def demo_core_def)
  have "\<exists>res'. f_on_transaction_json demo_externals demo_amounts ?fresh demo_server ?req
                  demo_transaction_details_response = Inr (True, res')"
    by (simp add: f_on_transaction_json_def demo_tx_hash_parse got f_getMixin_def Let_def
        split: option.splits prod.splits)
  then obtain res' where run: "f_on_transaction_json demo_externals demo_amounts ?fresh demo_server
                                 ?req demo_transaction_details_response = Inr (True, res')"
    by blast
  note inst = transaction_short_fee [OF found, of demo_externals demo_amounts "()" demo_pool_response
      ?fresh ?req demo_transaction_details_response demo_block_transactions]
  from inst have p: "\<forall>k < length (getPoolTransactions (m_core demo_server)).
            ts_fee (pool_transactions
                      (snd (f_on_pool_json demo_externals demo_amounts demo_server () demo_pool_response))
                      ! (length (pool_transactions demo_pool_response) + k)) =
              (if getInputAmount demo_amounts (getPoolTransactions (m_core demo_server) ! k)
                  < getOutputAmount demo_amounts (getPoolTransactions (m_core demo_server) ! k)
                    + MINIMUM_FEE demo_externals
               then MINIMUM_FEE demo_externals
               else getInputAmount demo_amounts (getPoolTransactions (m_core demo_server) ! k)
                    - getOutputAmount demo_amounts (getPoolTransactions (m_core demo_server) ! k))"
    by (rule conjunct1)
  from p [rule_format, of 0]
  have c1: "ts_fee (pool_transactions
               (snd (f_on_pool_json demo_externals demo_amounts demo_server () demo_pool_response)) ! 0) = 100"
    by (simp add: pool fee demo_amounts_demo_tx demo_pool_response_def)
  from inst have "\<forall>result res'.
            f_on_transaction_json demo_externals demo_amounts ?fresh demo_server ?req
              demo_transaction_details_response = Inr (result, res') \<longrightarrow>
            result = True
            \<and> (\<exists>hash missed. parse_hash256 demo_externals (td_request_hash ?req) = Some hash
                  \<and> getTransactions (m_core demo_server) [hash] True = ([td_tx res'], missed))
            \<and> td_fee (td_txDetails res') =
                (if get_inputs_money_amount demo_amounts (td_tx res') = 0 then 0
                 else get_inputs_money_amount demo_amounts (td_tx res')
                      - get_outs_money_amount demo_amounts (td_tx res'))"
    by blast
  from this [rule_format, OF run]
  have tx: "td_tx res' = demo_tx"
    and d: "td_fee (td_txDetails res') =
                (if get_inputs_money_amount demo_amounts (td_tx res') = 0 then 0
                 else get_inputs_money_amount demo_amounts (td_tx res')
                      - get_outs_money_amount demo_amounts (td_tx res'))"
    by (auto simp: demo_tx_hash_parse got)
  from d tx have "td_fee (td_txDetails res') = 5"
    by (simp add: demo_amounts_demo_tx)
  with run tx
  have c2: "\<exists>res'. f_on_transaction_json demo_externals demo_amounts ?fresh demo_server ?req
                      demo_transaction_details_response = Inr (True, res')
             \<and> td_tx res' = demo_tx \<and> td_fee (td_txDetails res') = 5"
    by blast
  from inst
  have b0: "ts_fee (bd_transactions (f_on_block_json_transactions demo_externals demo_amounts
                      demo_server (demo_block 0) demo_block_transactions)
                   ! length (bd_transactions demo_block_transactions)) = 0"
    and bk: "\<forall>k < length [demo_tx].
            ts_fee (bd_transactions (f_on_block_json_transactions demo_externals demo_amounts
                      demo_server (demo_block 0) demo_block_transactions)
                      ! (length (bd_transactions demo_block_transactions) + 1 + k)) =
              get_inputs_money_amount demo_amounts ([demo_tx] ! k)
              - get_outs_money_amount demo_amounts ([demo_tx] ! k)"
    and bt: "bd_totalFeeAmount (f_on_block_json_transactions demo_externals demo_amounts
                      demo_server (demo_block 0) demo_block_transactions) =
           sum_list (map (\<lambda>tx. get_inputs_money_amount demo_amounts tx
                                - get_outs_money_amount demo_amounts tx) [demo_tx])"
    by blast+
  from b0 have c3: "ts_fee (bd_transactions (f_on_block_json_transactions demo_externals demo_amounts
                      demo_server (demo_block 0) demo_block_transactions) ! 0) = 0"
    by (simp add: demo_block_transactions_def)
  from bk [rule_format, of 0]
  have c4: "ts_fee (bd_transactions (f_on_block_json_transactions demo_externals demo_amounts
                      demo_server (demo_block 0) demo_block_transactions) ! 1) = 5"
    by (simp add: demo_block_transactions_def demo_amounts_demo_tx)
  from bt have c5: "bd_totalFeeAmount (f_on_block_json_transactions demo_externals demo_amounts
                      demo_server (demo_block 0) demo_block_transactions) = 5"
    by (simp add: demo_amounts_demo_tx)
  from found pool c1 c2 c3 c4 c5 show ?thesis
    by (intro conjI)
qed

text \<open>
  The claim as stated fails for the pool listing and for the base transaction of a block.
  The transaction of the example pool spends 50 and pays 45, and the minimum fee is 100: the
  listing reports the fee 100, not 5. The base transaction of the example block has no
  input amount and pays 70: the block details report the fee 0, which is not the difference.
\<close>

theorem transaction_short_fee_counterexample:
  "getPoolTransactions (m_core demo_server) = [demo_tx]
   \<and> getInputAmount demo_amounts demo_tx = 50
   \<and> getOutputAmount demo_amounts demo_tx = 45
   \<and> MINIMUM_FEE demo_externals = 100
   \<and> map ts_fee (pool_transactions
        (snd (f_on_pool_json demo_externals demo_amounts demo_server () demo_pool_response))) = [100]
   \<and> get_inputs_money_amount demo_amounts (baseTransaction (demo_block 0)) = 0
   \<and> get_outs_money_amount demo_amounts (baseTransaction (demo_block 0)) = 70
   \<and> map ts_fee (bd_transactions
        (f_on_block_json_transactions demo_externals demo_amounts demo_server (demo_block 0)
           demo_block_transactions)) = [0, 5]"
proof -
  have pool: "getPoolTransactions (m_core demo_server) = [demo_tx]"
    by (simp add: demo_server_def demo_core_def)
  have fee: "MINIMUM_FEE demo_externals = 100"
    by (simp add: demo_externals_def)
  have listing: "map ts_fee (pool_transactions
        (snd (f_on_pool_json demo_externals demo_amounts demo_server () demo_pool_response))) = [100]"
    by (simp add: f_on_pool_json_def pool pool_transaction_short_def demo_amounts_demo_tx fee
        demo_pool_response_def Let_def)
  have base: "get_inputs_money_amount demo_amounts (baseTransaction (demo_block 0)) = 0"
    "get_outs_money_amount demo_amounts (baseTransaction (demo_block 0)) = 70"
    by (simp_all add: demo_amounts_def demo_block_def)
  have found: "getTransactions (m_core demo_server) (transactionHashes (demo_block 0)) False
               = ([demo_tx], [])"
    by (simp add: demo_server_def demo_core_def demo_block_def)
  have details: "map ts_fee (bd_transactions
        (f_on_block_json_transactions demo_externals demo_amounts demo_server (demo_block 0)
           demo_block_transactions)) = [0, 5]"
    by (simp add: f_on_block_json_transactions_def found base_transaction_short_def
        block_transaction_short_def demo_amounts_demo_tx demo_block_transactions_def Let_def)
  from pool demo_amounts_demo_tx(3,4) fee listing base details show ?thesis
    by (intro conjI)
qed

section \<open>Checking a payment with the transaction key or with the view key\<close>

record K_CHECK_TX_KEY_request =
  ck_txid :: string
  ck_txkey :: string
  ck_address :: string

record K_CHECK_TX_KEY_response = status_response +
  ck_amount :: u64
  ck_outputs :: "TransactionOutput list"

record K_CHECK_TX_WITH_PRIVATE_VIEW_KEY_request =
  vk_txid :: string
  vk_view_key :: string
  vk_address :: string

record K_CHECK_TX_WITH_PRIVATE_VIEW_KEY_response = status_response +
  vk_amount :: u64
  vk_outputs :: "TransactionOutput list"
  vk_confirmations :: u32

text \<open>
  The keys arrive as hex (lines 1180-1185 and 1252-1257): the overload of \<^verbatim>\<open>Common::fromHex\<close>
  that decodes into a buffer of 32 bytes fails for text that is not hex or is too long and
  reports the number of bytes it has written; anything but 32 bytes is refused. The 32 bytes
  are then read as a secret key.
\<close>

definition parse_secret_key :: "externals \<Rightarrow> string \<Rightarrow> SecretKey option" where
  "parse_secret_key X s =
     (case fromHex X s of
        None \<Rightarrow> None
      | Some b \<Rightarrow> if length b \<noteq> sizeof_Hash then None else Some (pod_of_bytes b))"

text \<open>
  The loop over the outputs in \<^verbatim>\<open>k_on_check_tx_key\<close> (lines 1210-1228). An exception in the
  loop is caught and becomes the JSON-RPC error \<^verbatim>\<open>"Unknown error"\<close>. The local \<^verbatim>\<open>pubkey\<close> is
  declared without a value and the result of \<^verbatim>\<open>derive_public_key\<close> is not tested: when no key
  has been derived the comparison reads a variable that was never written, which has no
  defined result (\<open>None\<close>).
\<close>

fun check_tx_key_loop ::
  "externals \<Rightarrow> KeyDerivation \<Rightarrow> AccountPublicAddress \<Rightarrow> TransactionOutput list \<Rightarrow>
   nat \<Rightarrow> u64 \<Rightarrow> TransactionOutput list \<Rightarrow> (exn + u64 \<times> TransactionOutput list) option" where
  "check_tx_key_loop X derivation address [] keyIndex received outs = Some (Inr (received, outs))"
| "check_tx_key_loop X derivation address (o1 # rest) keyIndex received outs =
     (case target o1 of
        KeyOutput key \<Rightarrow>
          (case derive_public_key X derivation keyIndex (spendPublicKey address) of
             Raised \<Rightarrow>
               Some (Inl (ThrowJsonRpcError
                            (JsonRpcErrorMsg CORE_RPC_ERROR_CODE_INTERNAL_ERROR ''Unknown error'')))
           | NotDerived \<Rightarrow> None
           | Derived pubkey \<Rightarrow>
               if pubkey = key
               then check_tx_key_loop X derivation address rest (keyIndex + 1)
                      (received + amount o1) (outs @ [o1])
               else check_tx_key_loop X derivation address rest (keyIndex + 1) received outs)
      | MultisignatureOutput keys \<Rightarrow>
          check_tx_key_loop X derivation address rest (keyIndex + 1) received outs)"

text \<open>\<^verbatim>\<open>k_on_check_tx_key\<close> (lines 1167-1237).\<close>

definition k_on_check_tx_key ::
  "externals \<Rightarrow> RpcServer \<Rightarrow> K_CHECK_TX_KEY_request \<Rightarrow> K_CHECK_TX_KEY_response \<Rightarrow>
   K_CHECK_TX_KEY_response outcome option" where
  "k_on_check_tx_key X this req res =
     (case parse_hash256 X (ck_txid req) of
        None \<Rightarrow> Some (throw CORE_RPC_ERROR_CODE_WRONG_PARAM ''Failed to parse txid'')
      | Some txid \<Rightarrow>
     (case parseAccountAddressString (currency (m_core this)) (ck_address req) of
        None \<Rightarrow> Some (throw CORE_RPC_ERROR_CODE_WRONG_PARAM
                        (''Failed to parse address '' @ ck_address req @ ''.''))
      | Some address \<Rightarrow>
     (case parse_secret_key X (ck_txkey req) of
        None \<Rightarrow> Some (throw CORE_RPC_ERROR_CODE_WRONG_PARAM ''Failed to parse txkey'')
      | Some tx_key \<Rightarrow>
     (case getTransactions (m_core this) [txid] True of
        (found_txs, missed_txs) \<Rightarrow>
          if length found_txs \<noteq> 1
          then Some (throw CORE_RPC_ERROR_CODE_WRONG_PARAM
                       (''Couldn't find transaction with hash: '' @ ck_txid req @ ''.''))
          else
            (let transaction = hd found_txs
             in case generate_key_derivation X (viewPublicKey address) tx_key of
                  None \<Rightarrow>
                    Some (throw CORE_RPC_ERROR_CODE_WRONG_PARAM
                            ''Failed to generate key derivation from supplied parameters'')
                | Some derivation \<Rightarrow>
                    (case check_tx_key_loop X derivation address (outputs transaction) 0 0 [] of
                       None \<Rightarrow> None
                     | Some (Inl e) \<Rightarrow> Some (Inl e)
                     | Some (Inr (received, outs)) \<Rightarrow>
                         Some (Inr (True, res\<lparr>ck_amount := received, ck_outputs := outs,
                                              status := CORE_RPC_STATUS_OK\<rparr>))))))))"

text \<open>The loop over the outputs in \<^verbatim>\<open>k_on_check_tx_with_view_key\<close> (lines 1286-1304).\<close>

fun check_tx_with_view_key_loop ::
  "externals \<Rightarrow> KeyDerivation \<Rightarrow> AccountPublicAddress \<Rightarrow> TransactionOutput list \<Rightarrow>
   nat \<Rightarrow> u64 \<Rightarrow> TransactionOutput list \<Rightarrow> (exn + u64 \<times> TransactionOutput list) option" where
  "check_tx_with_view_key_loop X derivation address [] keyIndex received outs =
     Some (Inr (received, outs))"
| "check_tx_with_view_key_loop X derivation address (o1 # rest) keyIndex received outs =
     (case target o1 of
        KeyOutput key \<Rightarrow>
          (case derive_public_key X derivation keyIndex (spendPublicKey address) of
             Raised \<Rightarrow>
               Some (Inl (ThrowJsonRpcError
                            (JsonRpcErrorMsg CORE_RPC_ERROR_CODE_INTERNAL_ERROR ''Unknown error'')))
           | NotDerived \<Rightarrow> None
           | Derived pubkey \<Rightarrow>
               if pubkey = key
               then check_tx_with_view_key_loop X derivation address rest (keyIndex + 1)
                      (received + amount o1) (outs @ [o1])
               else check_tx_with_view_key_loop X derivation address rest (keyIndex + 1) received outs)
      | MultisignatureOutput keys \<Rightarrow>
          check_tx_with_view_key_loop X derivation address rest (keyIndex + 1) received outs)"

text \<open>\<^verbatim>\<open>k_on_check_tx_with_view_key\<close> (lines 1239-1319).\<close>

definition k_on_check_tx_with_view_key ::
  "externals \<Rightarrow> RpcServer \<Rightarrow> K_CHECK_TX_WITH_PRIVATE_VIEW_KEY_request \<Rightarrow>
   K_CHECK_TX_WITH_PRIVATE_VIEW_KEY_response \<Rightarrow>
   K_CHECK_TX_WITH_PRIVATE_VIEW_KEY_response outcome option" where
  "k_on_check_tx_with_view_key X this req res =
     (case parse_hash256 X (vk_txid req) of
        None \<Rightarrow> Some (throw CORE_RPC_ERROR_CODE_WRONG_PARAM ''Failed to parse txid'')
      | Some txid \<Rightarrow>
     (case parseAccountAddressString (currency (m_core this)) (vk_address req) of
        None \<Rightarrow> Some (throw CORE_RPC_ERROR_CODE_WRONG_PARAM
                        (''Failed to parse address '' @ vk_address req @ ''.''))
      | Some address \<Rightarrow>
     (case parse_secret_key X (vk_view_key req) of
        None \<Rightarrow> Some (throw CORE_RPC_ERROR_CODE_WRONG_PARAM ''Failed to parse private view key'')
      | Some viewKey \<Rightarrow>
     (case getTransactions (m_core this) [txid] True of
        (found_txs, missed_txs) \<Rightarrow>
          if length found_txs \<noteq> 1
          then Some (throw CORE_RPC_ERROR_CODE_WRONG_PARAM
                       (''Couldn't find transaction with hash: '' @ vk_txid req @ ''.''))
          else
            (let transaction = hd found_txs;
                 txPubKey = getTransactionPublicKeyFromExtra X (extra transaction)
             in case generate_key_derivation X txPubKey viewKey of
                  None \<Rightarrow>
                    Some (throw CORE_RPC_ERROR_CODE_WRONG_PARAM
                            ''Failed to generate key derivation from supplied parameters'')
                | Some derivation \<Rightarrow>
                    (case check_tx_with_view_key_loop X derivation address (outputs transaction) 0 0 [] of
                       None \<Rightarrow> None
                     | Some (Inl e) \<Rightarrow> Some (Inl e)
                     | Some (Inr (received, outs)) \<Rightarrow>
                         (let res1 = res\<lparr>vk_amount := received, vk_outputs := outs\<rparr>;
                              res2 = (case getBlockContainingTx (m_core this) txid of
                                        None \<Rightarrow> res1
                                      | Some (blockHash, blockHeight) \<Rightarrow>
                                          res1\<lparr>vk_confirmations :=
                                                 getObservedHeight (m_protocolQuery this) - blockHeight\<rparr>)
                          in Some (Inr (True, res2\<lparr>status := CORE_RPC_STATUS_OK\<rparr>)))))))))"

lemma check_tx_loops_equal:
  "check_tx_with_view_key_loop X derivation address outs keyIndex received acc =
   check_tx_key_loop X derivation address outs keyIndex received acc"
  by (induction outs arbitrary: keyIndex received acc)
     (simp_all split: TransactionOutputTarget.splits derive_result.splits)

text \<open>
  What the scan finds: \<open>matching_outputs\<close> are the key outputs whose key is the one derived
  for their position among all outputs of the transaction.
\<close>

fun matching_outputs ::
  "externals \<Rightarrow> KeyDerivation \<Rightarrow> AccountPublicAddress \<Rightarrow> TransactionOutput list \<Rightarrow> nat \<Rightarrow>
   TransactionOutput list" where
  "matching_outputs X derivation address [] keyIndex = []"
| "matching_outputs X derivation address (o1 # rest) keyIndex =
     (case target o1 of
        KeyOutput key \<Rightarrow>
          if derive_public_key X derivation keyIndex (spendPublicKey address) = Derived key
          then o1 # matching_outputs X derivation address rest (keyIndex + 1)
          else matching_outputs X derivation address rest (keyIndex + 1)
      | MultisignatureOutput keys \<Rightarrow> matching_outputs X derivation address rest (keyIndex + 1))"

lemma check_tx_key_loop_result:
  assumes "check_tx_key_loop X derivation address outs keyIndex received acc = Some (Inr (r, found))"
  shows "found = acc @ matching_outputs X derivation address outs keyIndex
       \<and> r = received + sum_list (map amount (matching_outputs X derivation address outs keyIndex))"
  using assms
proof (induction outs arbitrary: keyIndex received acc)
  case Nil
  then show ?case by simp
next
  case (Cons o1 rest)
  show ?case
  proof (cases "target o1")
    case (MultisignatureOutput keys)
    with Cons.prems Cons.IH [of "keyIndex + 1" received acc] show ?thesis
      by simp
  next
    case (KeyOutput key)
    show ?thesis
    proof (cases "derive_public_key X derivation keyIndex (spendPublicKey address)")
      case Raised
      with KeyOutput Cons.prems show ?thesis by simp
    next
      case NotDerived
      with KeyOutput Cons.prems show ?thesis by simp
    next
      case (Derived pubkey)
      show ?thesis
      proof (cases "pubkey = key")
        case True
        with KeyOutput Derived Cons.prems
          Cons.IH [of "keyIndex + 1" "received + amount o1" "acc @ [o1]"]
        show ?thesis
          by (simp add: algebra_simps)
      next
        case False
        with KeyOutput Derived Cons.prems Cons.IH [of "keyIndex + 1" received acc]
        show ?thesis
          by simp
      qed
    qed
  qed
qed

text \<open>The part of an outcome that the two handlers have in common.\<close>

definition check_tx_key_view ::
  "K_CHECK_TX_KEY_response outcome option \<Rightarrow> (exn + bool \<times> u64 \<times> TransactionOutput list) option" where
  "check_tx_key_view r = map_option (map_sum id (\<lambda>(result, res). (result, ck_amount res, ck_outputs res))) r"

definition check_tx_with_view_key_view ::
  "K_CHECK_TX_WITH_PRIVATE_VIEW_KEY_response outcome option \<Rightarrow>
   (exn + bool \<times> u64 \<times> TransactionOutput list) option" where
  "check_tx_with_view_key_view r =
     map_option (map_sum id (\<lambda>(result, res). (result, vk_amount res, vk_outputs res))) r"

text \<open>
  C5. Let both handlers be asked about the same transaction id and the same address, let the
  id and the address parse and the core find exactly one transaction for the id, and let
  the key material match: the transaction key given to \<^verbatim>\<open>check_tx_key\<close> and the view key
  given to \<^verbatim>\<open>check_tx_with_view_key\<close> are 32 bytes of hex each, and the key derivation from
  the view public key of the address and the transaction key is the key derivation from the
  public key in the transaction's extra and the view key. Then the two handlers end alike:
  with the same error, or both with \<open>True\<close>, the same amount and the same list of outputs (or
  both without a defined result). When \<^verbatim>\<open>check_tx_key\<close> succeeds, the derivation exists, the
  outputs it returns are the key outputs whose key is the one derived for their position
  among all outputs, in their order, and the amount is the sum of their amounts
  (modulo \<open>2^64\<close>).
\<close>

theorem check_tx_key_agrees_with_view_key:
  assumes "vk_txid req2 = ck_txid req1" and "vk_address req2 = ck_address req1"
    and "parse_hash256 X (ck_txid req1) = Some txid"
    and "parseAccountAddressString (currency (m_core this)) (ck_address req1) = Some address"
    and "getTransactions (m_core this) [txid] True = ([transaction], missed_txs)"
    and "parse_secret_key X (ck_txkey req1) = Some tx_key"
    and "parse_secret_key X (vk_view_key req2) = Some viewKey"
    and "generate_key_derivation X (viewPublicKey address) tx_key =
         generate_key_derivation X (getTransactionPublicKeyFromExtra X (extra transaction)) viewKey"
  shows "check_tx_with_view_key_view (k_on_check_tx_with_view_key X this req2 res2) =
         check_tx_key_view (k_on_check_tx_key X this req1 res1)
       \<and> (\<forall>result res1'.
            k_on_check_tx_key X this req1 res1 = Some (Inr (result, res1')) \<longrightarrow>
            result = True
            \<and> (\<exists>derivation.
                  generate_key_derivation X (viewPublicKey address) tx_key = Some derivation
                  \<and> ck_outputs res1' = matching_outputs X derivation address (outputs transaction) 0
                  \<and> ck_amount res1' = sum_list (map amount (ck_outputs res1'))))"
proof -
  let ?d = "generate_key_derivation X (viewPublicKey address) tx_key"
  have agree: "check_tx_with_view_key_view (k_on_check_tx_with_view_key X this req2 res2) =
               check_tx_key_view (k_on_check_tx_key X this req1 res1)"
  proof (cases ?d)
    case None
    with assms show ?thesis
      by (simp add: k_on_check_tx_key_def k_on_check_tx_with_view_key_def
          check_tx_key_view_def check_tx_with_view_key_view_def throw_def)
  next
    case (Some derivation)
    then have d2: "generate_key_derivation X (getTransactionPublicKeyFromExtra X (extra transaction))
                     viewKey = Some derivation"
      using assms(8) by simp
    show ?thesis
    proof (cases "check_tx_key_loop X derivation address (outputs transaction) 0 0 []")
      case None
      with assms(1-7) Some d2 show ?thesis
        by (simp add: k_on_check_tx_key_def k_on_check_tx_with_view_key_def
            check_tx_key_view_def check_tx_with_view_key_view_def check_tx_loops_equal)
    next
      case (Some r)
      note loop = this
      show ?thesis
      proof (cases r)
        case (Inl e)
        with loop assms(1-7) \<open>?d = Some derivation\<close> d2 show ?thesis
          by (simp add: k_on_check_tx_key_def k_on_check_tx_with_view_key_def
              check_tx_key_view_def check_tx_with_view_key_view_def check_tx_loops_equal)
      next
        case (Inr p)
        with loop assms(1-7) \<open>?d = Some derivation\<close> d2 show ?thesis
          by (cases p)
             (simp add: k_on_check_tx_key_def k_on_check_tx_with_view_key_def
              check_tx_key_view_def check_tx_with_view_key_view_def check_tx_loops_equal
              Let_def split: option.splits)
      qed
    qed
  qed
  have scan: "result = True
            \<and> (\<exists>derivation.
                  ?d = Some derivation
                  \<and> ck_outputs res1' = matching_outputs X derivation address (outputs transaction) 0
                  \<and> ck_amount res1' = sum_list (map amount (ck_outputs res1')))"
    if ok: "k_on_check_tx_key X this req1 res1 = Some (Inr (result, res1'))" for result res1'
  proof -
    from ok assms(3-6) obtain derivation where d: "?d = Some derivation"
      by (cases ?d) (auto simp: k_on_check_tx_key_def throw_def)
    from ok assms(3-6) d obtain received outs where
      loop: "check_tx_key_loop X derivation address (outputs transaction) 0 0 [] = Some (Inr (received, outs))"
      and r: "result = True" "ck_amount res1' = received" "ck_outputs res1' = outs"
      by (auto simp: k_on_check_tx_key_def split: option.splits sum.splits)
    from check_tx_key_loop_result [OF loop] r d show ?thesis
      by simp
  qed
  from agree scan show ?thesis
    by blast
qed

text \<open>
  A payment on the example node: with the derivation \<open>77 * 9\<close> and the spend key 7 the
  outputs at the positions 0 and 2 carry the derived keys.
\<close>

definition demo_payment :: Transaction where
  "demo_payment =
     \<lparr>inputs = [KeyInput 60 [1, 2]],
      outputs = [\<lparr>amount = 30, target = KeyOutput 700\<rparr>,
                 \<lparr>amount = 4, target = KeyOutput 5\<rparr>,
                 \<lparr>amount = 15, target = KeyOutput 702\<rparr>,
                 \<lparr>amount = 9, target = MultisignatureOutput [703]\<rparr>],
      extra = 1 # pod_bytes 77\<rparr>"

definition demo_payment_server :: RpcServer where
  "demo_payment_server =
     demo_server\<lparr>m_core := demo_core\<lparr>getTransactions :=
       (\<lambda>ids pool. (map (\<lambda>h. demo_payment) (filter (\<lambda>h. h = 500) ids), filter (\<lambda>h. h \<noteq> 500) ids))\<rparr>\<rparr>"

definition demo_key_77 :: string where
  "demo_key_77 = ''4d00000000000000000000000000000000000000000000000000000000000000''"

definition demo_key_9 :: string where
  "demo_key_9 = ''0900000000000000000000000000000000000000000000000000000000000000''"

definition demo_check_tx_key_response :: K_CHECK_TX_KEY_response where
  "demo_check_tx_key_response = \<lparr>status = [], ck_amount = 0, ck_outputs = []\<rparr>"

definition demo_check_tx_with_view_key_response :: K_CHECK_TX_WITH_PRIVATE_VIEW_KEY_response where
  "demo_check_tx_with_view_key_response =
     \<lparr>status = [], vk_amount = 0, vk_outputs = [], vk_confirmations = 0\<rparr>"

lemma demo_keys_parse:
  "parse_secret_key demo_externals demo_key_77 = Some 77"
  "parse_secret_key demo_externals demo_key_9 = Some 9"
  "parse_hash256 demo_externals ''f401000000000000000000000000000000000000000000000000000000000000'' = Some 500"
  by code_simp+

lemma demo_payment_key: "getTransactionPublicKeyFromExtra demo_externals (extra demo_payment) = 77"
  by code_simp

theorem check_tx_key_agrees_with_view_key_witness:
  "k_on_check_tx_key demo_externals demo_payment_server
     \<lparr>ck_txid = ''f401000000000000000000000000000000000000000000000000000000000000'',
      ck_txkey = demo_key_77, ck_address = ''Kdemo''\<rparr> demo_check_tx_key_response
   = Some (Inr (True,
        \<lparr>status = ''OK'', ck_amount = 45,
         ck_outputs = [\<lparr>amount = 30, target = KeyOutput 700\<rparr>, \<lparr>amount = 15, target = KeyOutput 702\<rparr>]\<rparr>))
   \<and> check_tx_with_view_key_view
        (k_on_check_tx_with_view_key demo_externals demo_payment_server
           \<lparr>vk_txid = ''f401000000000000000000000000000000000000000000000000000000000000'',
            vk_view_key = demo_key_9, vk_address = ''Kdemo''\<rparr> demo_check_tx_with_view_key_response)
     = Some (Inr (True, 45,
          [\<lparr>amount = 30, target = KeyOutput 700\<rparr>, \<lparr>amount = 15, target = KeyOutput 702\<rparr>]))"
proof -
  let ?txid = "''f401000000000000000000000000000000000000000000000000000000000000''"
  let ?req1 = "\<lparr>ck_txid = ?txid, ck_txkey = demo_key_77, ck_address = ''Kdemo''\<rparr>"
  let ?req2 = "\<lparr>vk_txid = ?txid, vk_view_key = demo_key_9, vk_address = ''Kdemo''\<rparr>"
  have a1: "vk_txid ?req2 = ck_txid ?req1" and a2: "vk_address ?req2 = ck_address ?req1"
    by simp_all
  have a3: "parse_hash256 demo_externals (ck_txid ?req1) = Some 500"
    using demo_keys_parse(3) by simp
  have a4: "parseAccountAddressString (currency (m_core demo_payment_server)) (ck_address ?req1)
            = Some demo_address"
    by (simp add: demo_payment_server_def demo_core_def demo_currency_def)
  have a5: "getTransactions (m_core demo_payment_server) [500] True = ([demo_payment], [])"
    by (simp add: demo_payment_server_def)
  have a6: "parse_secret_key demo_externals (ck_txkey ?req1) = Some 77"
    using demo_keys_parse(1) by simp
  have a7: "parse_secret_key demo_externals (vk_view_key ?req2) = Some 9"
    using demo_keys_parse(2) by simp
  have d1: "generate_key_derivation demo_externals (viewPublicKey demo_address) 77 = Some 693"
    by (simp add: demo_externals_def demo_address_def)
  have d2: "generate_key_derivation demo_externals
              (getTransactionPublicKeyFromExtra demo_externals (extra demo_payment)) 9 = Some 693"
    unfolding demo_payment_key by (simp add: demo_externals_def)
  have a8: "generate_key_derivation demo_externals (viewPublicKey demo_address) 77 =
            generate_key_derivation demo_externals
              (getTransactionPublicKeyFromExtra demo_externals (extra demo_payment)) 9"
    using d1 d2 by simp
  have derive: "derive_public_key demo_externals d i B = Derived (d + of_nat i + B)" for d i B
    by (simp add: demo_externals_def)
  have loop: "check_tx_key_loop demo_externals 693 demo_address (outputs demo_payment) 0 0 [] =
              Some (Inr (45, [\<lparr>amount = 30, target = KeyOutput 700\<rparr>,
                               \<lparr>amount = 15, target = KeyOutput 702\<rparr>]))"
    by (simp add: demo_payment_def derive demo_address_def)
  have run: "k_on_check_tx_key demo_externals demo_payment_server ?req1 demo_check_tx_key_response
   = Some (Inr (True,
        \<lparr>status = ''OK'', ck_amount = 45,
         ck_outputs = [\<lparr>amount = 30, target = KeyOutput 700\<rparr>, \<lparr>amount = 15, target = KeyOutput 702\<rparr>]\<rparr>))"
    using a3 a4 a5 a6 d1 loop
    by (simp add: k_on_check_tx_key_def demo_check_tx_key_response_def CORE_RPC_STATUS_OK_def)
  from check_tx_key_agrees_with_view_key [OF a1 a2 a3 a4 a5 a6 a7 a8,
         of demo_check_tx_with_view_key_response demo_check_tx_key_response]
  have "check_tx_with_view_key_view
          (k_on_check_tx_with_view_key demo_externals demo_payment_server ?req2
             demo_check_tx_with_view_key_response) =
        check_tx_key_view
          (k_on_check_tx_key demo_externals demo_payment_server ?req1 demo_check_tx_key_response)"
    by (rule conjunct1)
  also have "\<dots> = Some (Inr (True, 45,
          [\<lparr>amount = 30, target = KeyOutput 700\<rparr>, \<lparr>amount = 15, target = KeyOutput 702\<rparr>]))"
    unfolding run by (simp add: check_tx_key_view_def)
  finally show ?thesis
    using run by simp
qed

section \<open>The JSON-RPC sub-dispatcher\<close>

text \<open>
  Modelled from the spec: the envelope of a JSON-RPC request, \<^verbatim>\<open>JsonRpcRequest\<close> of
  \<^verbatim>\<open>JsonRpc.h\<close>, which is not part of this file. The spec gives the envelope as an opaque id
  that is echoed, a method name and opaque parameters; opaque values are kept as their JSON
  text, and a request need not carry an id.
\<close>

record JsonRpcRequest =
  getId :: "string option"
  getMethod :: string
  getParams :: string

text \<open>
  Modelled from the spec: the envelope of a JSON-RPC response, \<^verbatim>\<open>JsonRpcResponse\<close> of
  \<^verbatim>\<open>JsonRpc.h\<close>: the echoed id, a success payload and an error object, each present or not.
  A new response has none of them; \<^verbatim>\<open>setId\<close>, \<^verbatim>\<open>setResult\<close> and \<^verbatim>\<open>setError\<close> each write their
  own member and leave the others as they are.
\<close>

record JsonRpcResponse =
  response_id :: "string option"
  response_result :: "string option"
  response_error :: "JsonRpcError option"

definition new_JsonRpcResponse :: JsonRpcResponse where
  "new_JsonRpcResponse = \<lparr>response_id = None, response_result = None, response_error = None\<rparr>"

definition setId :: "string option \<Rightarrow> JsonRpcResponse \<Rightarrow> JsonRpcResponse" where
  "setId id1 jsonResponse = jsonResponse\<lparr>response_id := id1\<rparr>"

definition setResult :: "string \<Rightarrow> JsonRpcResponse \<Rightarrow> JsonRpcResponse" where
  "setResult payload jsonResponse = jsonResponse\<lparr>response_result := Some payload\<rparr>"

definition setError :: "JsonRpcError \<Rightarrow> JsonRpcResponse \<Rightarrow> JsonRpcResponse" where
  "setError err jsonResponse = jsonResponse\<lparr>response_error := Some err\<rparr>"

text \<open>
  A JSON-RPC handler gets the response by reference: it returns or throws, and leaves the
  response in some state either way.
\<close>

type_synonym JsonMemberMethod =
  "RpcServer \<Rightarrow> JsonRpcRequest \<Rightarrow> JsonRpcResponse \<Rightarrow> (exn + bool) \<times> JsonRpcResponse"

text \<open>
  Modelled from the spec: \<^verbatim>\<open>makeMemberMethod\<close> of \<^verbatim>\<open>JsonRpc.h\<close>, which wraps every entry of the
  JSON-RPC table (lines 156-174). Following the spec's control flow (decode, handler,
  encode), it decodes the parameters, runs the handler on a new response struct and, when
  the handler has returned \<open>true\<close>, stores the encoded struct as the result; a failure to
  decode and an exception of the handler leave the envelope as it was.
\<close>

definition makeMemberMethod ::
  "(string \<Rightarrow> exn + 'req) \<Rightarrow> ('res \<Rightarrow> string) \<Rightarrow> 'res \<Rightarrow>
   (RpcServer \<Rightarrow> 'req \<Rightarrow> 'res \<Rightarrow> 'res outcome) \<Rightarrow> JsonMemberMethod" where
  "makeMemberMethod loadParams storeResult res0 method = (\<lambda>obj jsReq jsRes.
     case loadParams (getParams jsReq) of
       Inl e \<Rightarrow> (Inl e, jsRes)
     | Inr req \<Rightarrow>
         (case method obj req res0 of
            Inl e \<Rightarrow> (Inl e, jsRes)
          | Inr (result, res) \<Rightarrow>
              (Inr result, if result then setResult (storeResult res) jsRes else jsRes)))"

text \<open>
  The \<^verbatim>\<open>try\<close> block of \<^verbatim>\<open>processJsonRpcRequest\<close> (lines 155-192): what it throws, if anything,
  and the state it leaves the response in. \<open>parseRequest\<close> is the parser of the envelope.
\<close>

definition processJsonRpcRequest_try ::
  "(string \<Rightarrow> exn + JsonRpcRequest) \<Rightarrow> (string \<rightharpoonup> JsonMemberMethod RpcHandler) \<Rightarrow>
   RpcServer \<Rightarrow> HttpRequest \<Rightarrow> JsonRpcResponse \<Rightarrow> exn option \<times> JsonRpcResponse" where
  "processJsonRpcRequest_try parseRequest jsonRpcHandlers this request jsonResponse =
     (case parseRequest (request_body request) of
        Inl e \<Rightarrow> (Some e, jsonResponse)
      | Inr jsonRequest \<Rightarrow>
          (let jsonResponse1 = setId (getId jsonRequest) jsonResponse
           in case jsonRpcHandlers (getMethod jsonRequest) of
                None \<Rightarrow> (Some (ThrowJsonRpcError (JsonRpcError errMethodNotFound)), jsonResponse1)
              | Some it \<Rightarrow>
                  if \<not> allowBusyCore it \<and> \<not> isCoreReady this
                  then (Some (ThrowJsonRpcError
                                (JsonRpcErrorMsg CORE_RPC_ERROR_CODE_CORE_BUSY ''Core is busy'')),
                        jsonResponse1)
                  else (case handler it this jsonRequest jsonResponse1 of
                          (Inl e, jsonResponse2) \<Rightarrow> (Some e, jsonResponse2)
                        | (Inr result, jsonResponse2) \<Rightarrow> (None, jsonResponse2))))"

text \<open>The two \<^verbatim>\<open>catch\<close> clauses (lines 194-198).\<close>

definition processJsonRpcRequest_catch :: "exn option \<times> JsonRpcResponse \<Rightarrow> JsonRpcResponse" where
  "processJsonRpcRequest_catch r =
     (case r of
        (None, jsonResponse) \<Rightarrow> jsonResponse
      | (Some (ThrowJsonRpcError err), jsonResponse) \<Rightarrow> setError err jsonResponse
      | (Some (ThrowStdException what), jsonResponse) \<Rightarrow>
          setError (JsonRpcErrorMsg errInternalError what) jsonResponse)"

definition addHeader :: "string \<Rightarrow> string \<Rightarrow> HttpResponse \<Rightarrow> HttpResponse" where
  "addHeader name v response = response\<lparr>headers := headers response @ [(name, v)]\<rparr>"

text \<open>The envelope that the \<^verbatim>\<open>try\<close> block and its \<^verbatim>\<open>catch\<close> clauses leave (lines 152-198).\<close>

definition processJsonRpcRequest_response ::
  "(string \<Rightarrow> exn + JsonRpcRequest) \<Rightarrow> (string \<rightharpoonup> JsonMemberMethod RpcHandler) \<Rightarrow>
   RpcServer \<Rightarrow> HttpRequest \<Rightarrow> JsonRpcResponse" where
  "processJsonRpcRequest_response parseRequest jsonRpcHandlers this request =
     processJsonRpcRequest_catch
       (processJsonRpcRequest_try parseRequest jsonRpcHandlers this request new_JsonRpcResponse)"

text \<open>
  \<^verbatim>\<open>processJsonRpcRequest\<close> (lines 142-203). \<open>getBody\<close> is the serialisation of the envelope.
\<close>

definition processJsonRpcRequest ::
  "(string \<Rightarrow> exn + JsonRpcRequest) \<Rightarrow> (JsonRpcResponse \<Rightarrow> string) \<Rightarrow>
   (string \<rightharpoonup> JsonMemberMethod RpcHandler) \<Rightarrow>
   RpcServer \<Rightarrow> HttpRequest \<Rightarrow> HttpResponse \<Rightarrow> bool \<times> HttpResponse" where
  "processJsonRpcRequest parseRequest getBody jsonRpcHandlers this request response =
     (let response1 = addHeader ''Content-Type'' ''application/json'' response;
          response2 = (if m_cors_domain this \<noteq> []
                       then addHeader ''Access-Control-Allow-Origin'' (m_cors_domain this) response1
                       else response1);
          jsonResponse = processJsonRpcRequest_response parseRequest jsonRpcHandlers this request
      in (True, response2\<lparr>body := getBody jsonResponse\<rparr>))"

text \<open>
  What the dispatcher relies on in a handler of its table: it does not touch the id or the
  error of the envelope, it stores a result exactly when it returns \<open>true\<close>, and it leaves the
  envelope alone when it throws or returns \<open>false\<close>.
\<close>

definition member_method :: "JsonMemberMethod \<Rightarrow> bool" where
  "member_method h \<longleftrightarrow>
     (\<forall>obj jsReq jsRes.
        case h obj jsReq jsRes of
          (Inl e, jsRes') \<Rightarrow> jsRes' = jsRes
        | (Inr result, jsRes') \<Rightarrow>
            if result then (\<exists>payload. jsRes' = setResult payload jsRes) else jsRes' = jsRes)"

lemma member_method_makeMemberMethod:
  "member_method (makeMemberMethod loadParams storeResult res0 method)"
  by (auto simp: member_method_def makeMemberMethod_def split: sum.splits)

lemma member_method_cases:
  assumes "member_method h"
  obtains e where "h obj jsReq jsRes = (Inl e, jsRes)"
  | payload where "h obj jsReq jsRes = (Inr True, setResult payload jsRes)"
  | "h obj jsReq jsRes = (Inr False, jsRes)"
proof (cases "h obj jsReq jsRes")
  case (Pair r jsRes')
  show ?thesis
  proof (cases r)
    case (Inl e)
    with Pair assms that(1) [of e] show ?thesis
      by (auto simp: member_method_def split: prod.splits sum.splits dest!: spec)
  next
    case (Inr result)
    from assms have "case h obj jsReq jsRes of
          (Inl e, jsRes') \<Rightarrow> jsRes' = jsRes
        | (Inr result, jsRes') \<Rightarrow>
            if result then (\<exists>payload. jsRes' = setResult payload jsRes) else jsRes' = jsRes"
      by (simp add: member_method_def)
    with Pair Inr have "if result then (\<exists>payload. jsRes' = setResult payload jsRes) else jsRes' = jsRes"
      by simp
    with Pair Inr that(2,3) show ?thesis
      by (cases result) auto
  qed
qed

text \<open>
  C4. Let the envelope of a JSON-RPC request parse, and let every handler of the table
  behave like one made by \<^verbatim>\<open>makeMemberMethod\<close>. The body of the HTTP response is the
  serialisation of an envelope that carries the id of the request and never both a result
  and an error. For a method that is not in the table it carries the method-not-found
  error and no result; for a gated method while the core is not ready, the core-busy error
  and no result; for a handler that throws a \<^verbatim>\<open>JsonRpcError\<close>, that error and no result; for a
  handler that throws another exception, the internal-error code with the text of the
  exception and no result; and for a handler that returns, no error, and a result exactly
  when the handler has returned \<open>true\<close>.
\<close>

theorem processJsonRpcRequest_envelope:
  assumes "parseRequest (request_body request) = Inr jsonRequest"
    and "\<forall>name it. jsonRpcHandlers name = Some it \<longrightarrow> member_method (handler it)"
  shows "processJsonRpcRequest parseRequest getBody jsonRpcHandlers this request response =
           (True,
            (if m_cors_domain this \<noteq> []
             then addHeader ''Access-Control-Allow-Origin'' (m_cors_domain this)
                    (addHeader ''Content-Type'' ''application/json'' response)
             else addHeader ''Content-Type'' ''application/json'' response)
            \<lparr>body := getBody (processJsonRpcRequest_response parseRequest jsonRpcHandlers this request)\<rparr>)
       \<and> response_id (processJsonRpcRequest_response parseRequest jsonRpcHandlers this request)
           = getId jsonRequest
       \<and> \<not> (response_result (processJsonRpcRequest_response parseRequest jsonRpcHandlers this request) \<noteq> None
            \<and> response_error (processJsonRpcRequest_response parseRequest jsonRpcHandlers this request) \<noteq> None)
       \<and> (jsonRpcHandlers (getMethod jsonRequest) = None \<longrightarrow>
            response_error (processJsonRpcRequest_response parseRequest jsonRpcHandlers this request)
              = Some (JsonRpcError errMethodNotFound)
            \<and> response_result (processJsonRpcRequest_response parseRequest jsonRpcHandlers this request)
              = None)
       \<and> (\<forall>it. jsonRpcHandlers (getMethod jsonRequest) = Some it
                 \<and> \<not> allowBusyCore it \<and> \<not> isCoreReady this \<longrightarrow>
            response_error (processJsonRpcRequest_response parseRequest jsonRpcHandlers this request)
              = Some (JsonRpcErrorMsg CORE_RPC_ERROR_CODE_CORE_BUSY ''Core is busy'')
            \<and> response_result (processJsonRpcRequest_response parseRequest jsonRpcHandlers this request)
              = None)
       \<and> (\<forall>it. jsonRpcHandlers (getMethod jsonRequest) = Some it
                 \<and> (allowBusyCore it \<or> isCoreReady this) \<longrightarrow>
            (case fst (handler it this jsonRequest (setId (getId jsonRequest) new_JsonRpcResponse)) of
               Inl (ThrowJsonRpcError err) \<Rightarrow>
                 response_error (processJsonRpcRequest_response parseRequest jsonRpcHandlers this request)
                   = Some err
                 \<and> response_result (processJsonRpcRequest_response parseRequest jsonRpcHandlers this request)
                   = None
             | Inl (ThrowStdException what) \<Rightarrow>
                 response_error (processJsonRpcRequest_response parseRequest jsonRpcHandlers this request)
                   = Some (JsonRpcErrorMsg errInternalError what)
                 \<and> response_result (processJsonRpcRequest_response parseRequest jsonRpcHandlers this request)
                   = None
             | Inr result \<Rightarrow>
                 response_error (processJsonRpcRequest_response parseRequest jsonRpcHandlers this request)
                   = None
                 \<and> (response_result (processJsonRpcRequest_response parseRequest jsonRpcHandlers this request)
                      \<noteq> None \<longleftrightarrow> result)))"
proof -
  let ?js = "processJsonRpcRequest_response parseRequest jsonRpcHandlers this request"
  let ?js1 = "setId (getId jsonRequest) new_JsonRpcResponse"
  note defs = processJsonRpcRequest_response_def processJsonRpcRequest_try_def
    processJsonRpcRequest_catch_def setId_def setError_def setResult_def new_JsonRpcResponse_def
  have http: "processJsonRpcRequest parseRequest getBody jsonRpcHandlers this request response =
           (True,
            (if m_cors_domain this \<noteq> []
             then addHeader ''Access-Control-Allow-Origin'' (m_cors_domain this)
                    (addHeader ''Content-Type'' ''application/json'' response)
             else addHeader ''Content-Type'' ''application/json'' response)
            \<lparr>body := getBody ?js\<rparr>)"
    by (simp add: processJsonRpcRequest_def Let_def)
  have missing: "response_id ?js = getId jsonRequest
       \<and> response_error ?js = Some (JsonRpcError errMethodNotFound) \<and> response_result ?js = None"
    if "jsonRpcHandlers (getMethod jsonRequest) = None"
    using that assms(1) by (simp add: defs)
  have busy: "response_id ?js = getId jsonRequest
       \<and> response_error ?js = Some (JsonRpcErrorMsg CORE_RPC_ERROR_CODE_CORE_BUSY ''Core is busy'')
       \<and> response_result ?js = None"
    if "jsonRpcHandlers (getMethod jsonRequest) = Some it" and "\<not> allowBusyCore it \<and> \<not> isCoreReady this"
    for it
    using that assms(1) by (simp add: defs)
  have invoked: "response_id ?js = getId jsonRequest
       \<and> (case fst (handler it this jsonRequest ?js1) of
               Inl (ThrowJsonRpcError err) \<Rightarrow> response_error ?js = Some err \<and> response_result ?js = None
             | Inl (ThrowStdException what) \<Rightarrow>
                 response_error ?js = Some (JsonRpcErrorMsg errInternalError what)
                 \<and> response_result ?js = None
             | Inr result \<Rightarrow> response_error ?js = None \<and> (response_result ?js \<noteq> None \<longleftrightarrow> result))"
    if it: "jsonRpcHandlers (getMethod jsonRequest) = Some it" and ready: "allowBusyCore it \<or> isCoreReady this"
    for it
  proof -
    from assms(2) it have "member_method (handler it)"
      by blast
    then show ?thesis
    proof (cases rule: member_method_cases [where obj = this and jsReq = jsonRequest and jsRes = ?js1])
      case (1 e)
      with it ready assms(1) show ?thesis
        by (cases e) (auto simp: defs)
    next
      case (2 payload)
      with it ready assms(1) show ?thesis
        by (auto simp: defs)
    next
      case 3
      with it ready assms(1) show ?thesis
        by (auto simp: defs)
    qed
  qed
  have id: "response_id ?js = getId jsonRequest"
  proof (cases "jsonRpcHandlers (getMethod jsonRequest)")
    case None
    with missing show ?thesis by blast
  next
    case (Some it)
    with busy [of it] invoked [of it] show ?thesis
      by blast
  qed
  have one: "\<not> (response_result ?js \<noteq> None \<and> response_error ?js \<noteq> None)"
  proof (cases "jsonRpcHandlers (getMethod jsonRequest)")
    case None
    with missing show ?thesis by simp
  next
    case (Some it)
    show ?thesis
    proof (cases "allowBusyCore it \<or> isCoreReady this")
      case False
      with busy [OF Some] show ?thesis by simp
    next
      case True
      from invoked [OF Some True] show ?thesis
        by (auto split: sum.splits exn.splits)
    qed
  qed
  from http id one missing busy invoked show ?thesis
    by (intro conjI allI impI) blast+
qed

text \<open>
  The \<^verbatim>\<open>submitblock\<close> entry of the table on an example node that is synchronized, with a
  parser that reads the method name from the body.
\<close>

definition demo_jsonRpcHandlers :: "string \<rightharpoonup> JsonMemberMethod RpcHandler" where
  "demo_jsonRpcHandlers =
     [''submitblock'' \<mapsto>
        \<lparr>handler = makeMemberMethod (\<lambda>params. Inr [params]) status \<lparr>status = []\<rparr>
                     (on_submitblock demo_externals),
         allowBusyCore = False\<rparr>]"

definition demo_parseRequest :: "string \<Rightarrow> exn + JsonRpcRequest" where
  "demo_parseRequest s = Inr \<lparr>getId = Some ''7'', getMethod = s, getParams = ''01''\<rparr>"

definition demo_synchronized_server :: RpcServer where
  "demo_synchronized_server = demo_server\<lparr>m_p2p := \<lparr>isSynchronized = True\<rparr>\<rparr>"

theorem processJsonRpcRequest_envelope_witness:
  "response_id (processJsonRpcRequest_response demo_parseRequest demo_jsonRpcHandlers
                  demo_synchronized_server \<lparr>url = ''/json_rpc'', request_body = ''submitblock''\<rparr>)
     = Some ''7''
   \<and> response_error (processJsonRpcRequest_response demo_parseRequest demo_jsonRpcHandlers
                  demo_synchronized_server \<lparr>url = ''/json_rpc'', request_body = ''submitblock''\<rparr>)
     = None
   \<and> response_result (processJsonRpcRequest_response demo_parseRequest demo_jsonRpcHandlers
                  demo_synchronized_server \<lparr>url = ''/json_rpc'', request_body = ''submitblock''\<rparr>)
     \<noteq> None
   \<and> response_id (processJsonRpcRequest_response demo_parseRequest demo_jsonRpcHandlers
                  demo_synchronized_server \<lparr>url = ''/json_rpc'', request_body = ''nosuch''\<rparr>)
     = Some ''7''
   \<and> response_error (processJsonRpcRequest_response demo_parseRequest demo_jsonRpcHandlers
                  demo_synchronized_server \<lparr>url = ''/json_rpc'', request_body = ''nosuch''\<rparr>)
     = Some (JsonRpcError errMethodNotFound)
   \<and> response_result (processJsonRpcRequest_response demo_parseRequest demo_jsonRpcHandlers
                  demo_synchronized_server \<lparr>url = ''/json_rpc'', request_body = ''nosuch''\<rparr>)
     = None"
proof -
  let ?submit = "\<lparr>url = ''/json_rpc'', request_body = ''submitblock''\<rparr>"
  let ?nosuch = "\<lparr>url = ''/json_rpc'', request_body = ''nosuch''\<rparr>"
  let ?it = "\<lparr>handler = makeMemberMethod (\<lambda>params. Inr [params]) status \<lparr>status = []\<rparr>
                     (on_submitblock demo_externals),
             allowBusyCore = False\<rparr>"
  have table: "\<forall>name it. demo_jsonRpcHandlers name = Some it \<longrightarrow> member_method (handler it)"
    by (auto simp: demo_jsonRpcHandlers_def member_method_makeMemberMethod split: if_splits)
  have p1: "demo_parseRequest (request_body ?submit)
            = Inr \<lparr>getId = Some ''7'', getMethod = ''submitblock'', getParams = ''01''\<rparr>"
    and p2: "demo_parseRequest (request_body ?nosuch)
            = Inr \<lparr>getId = Some ''7'', getMethod = ''nosuch'', getParams = ''01''\<rparr>"
    by (simp_all add: demo_parseRequest_def)
  note i1 = processJsonRpcRequest_envelope
    [where parseRequest = demo_parseRequest and request = ?submit
       and jsonRequest = "\<lparr>getId = Some ''7'', getMethod = ''submitblock'', getParams = ''01''\<rparr>"
       and jsonRpcHandlers = demo_jsonRpcHandlers and getBody = "\<lambda>js. []"
       and this = demo_synchronized_server and response = demo_response, OF p1 table]
  note i2 = processJsonRpcRequest_envelope
    [where parseRequest = demo_parseRequest and request = ?nosuch
       and jsonRequest = "\<lparr>getId = Some ''7'', getMethod = ''nosuch'', getParams = ''01''\<rparr>"
       and jsonRpcHandlers = demo_jsonRpcHandlers and getBody = "\<lambda>js. []"
       and this = demo_synchronized_server and response = demo_response, OF p2 table]
  have e1: "demo_jsonRpcHandlers ''submitblock'' = Some ?it"
    and e2: "demo_jsonRpcHandlers ''nosuch'' = None"
    by (simp_all add: demo_jsonRpcHandlers_def)
  have ready: "isCoreReady demo_synchronized_server"
    by (simp add: isCoreReady_def demo_synchronized_server_def)
  have hex: "fromHex demo_externals ''01'' = Some [1]"
    by (simp add: demo_externals_def hex_value_def)
  have run: "on_submitblock demo_externals demo_synchronized_server [''01''] \<lparr>status = []\<rparr>
             = Inr (True, \<lparr>status = ''OK''\<rparr>)"
    by (simp add: on_submitblock_def hex demo_synchronized_server_def demo_server_def demo_core_def
        CORE_RPC_STATUS_OK_def Let_def)
  have h: "fst (handler ?it demo_synchronized_server
                 \<lparr>getId = Some ''7'', getMethod = ''submitblock'', getParams = ''01''\<rparr>
                 (setId (Some ''7'') new_JsonRpcResponse)) = Inr True"
    by (simp add: makeMemberMethod_def run)
  from i1 have "response_id (processJsonRpcRequest_response demo_parseRequest demo_jsonRpcHandlers
                  demo_synchronized_server ?submit) = Some ''7''"
    by simp
  moreover
  from i1 have "\<forall>it. demo_jsonRpcHandlers ''submitblock'' = Some it
                 \<and> (allowBusyCore it \<or> isCoreReady demo_synchronized_server) \<longrightarrow>
            (case fst (handler it demo_synchronized_server
                         \<lparr>getId = Some ''7'', getMethod = ''submitblock'', getParams = ''01''\<rparr>
                         (setId (Some ''7'') new_JsonRpcResponse)) of
               Inl (ThrowJsonRpcError err) \<Rightarrow>
                 response_error (processJsonRpcRequest_response demo_parseRequest demo_jsonRpcHandlers
                   demo_synchronized_server ?submit) = Some err
                 \<and> response_result (processJsonRpcRequest_response demo_parseRequest demo_jsonRpcHandlers
                   demo_synchronized_server ?submit) = None
             | Inl (ThrowStdException what) \<Rightarrow>
                 response_error (processJsonRpcRequest_response demo_parseRequest demo_jsonRpcHandlers
                   demo_synchronized_server ?submit) = Some (JsonRpcErrorMsg errInternalError what)
                 \<and> response_result (processJsonRpcRequest_response demo_parseRequest demo_jsonRpcHandlers
                   demo_synchronized_server ?submit) = None
             | Inr result \<Rightarrow>
                 response_error (processJsonRpcRequest_response demo_parseRequest demo_jsonRpcHandlers
                   demo_synchronized_server ?submit) = None
                 \<and> (response_result (processJsonRpcRequest_response demo_parseRequest
                       demo_jsonRpcHandlers demo_synchronized_server ?submit) \<noteq> None \<longleftrightarrow> result))"
    by simp
  from this [rule_format, of ?it] e1 ready h
  have "response_error (processJsonRpcRequest_response demo_parseRequest demo_jsonRpcHandlers
                   demo_synchronized_server ?submit) = None
        \<and> response_result (processJsonRpcRequest_response demo_parseRequest demo_jsonRpcHandlers
                   demo_synchronized_server ?submit) \<noteq> None"
    by simp
  moreover
  from i2 e2
  have "response_id (processJsonRpcRequest_response demo_parseRequest demo_jsonRpcHandlers
                  demo_synchronized_server ?nosuch) = Some ''7''
    \<and> response_error (processJsonRpcRequest_response demo_parseRequest demo_jsonRpcHandlers
                  demo_synchronized_server ?nosuch) = Some (JsonRpcError errMethodNotFound)
    \<and> response_result (processJsonRpcRequest_response demo_parseRequest demo_jsonRpcHandlers
                  demo_synchronized_server ?nosuch) = None"
    by simp
  ultimately show ?thesis
    by blast
qed

end
